theory Spec2Isabelle
  imports Complex_Main
begin

section \<open>JavaScript values used by the dashboard and the edit form\<close>

subsection \<open>Strings\<close>

text \<open>
  Strings are byte strings. \<open>toLowerCase\<close>, \<open>toUpperCase\<close> and \<open>trim\<close> are the
  ASCII parts of the JavaScript methods: the letters A-Z and a-z change case, every other
  byte is left alone, and the white space removed by \<open>trim\<close> is TAB, LF, VT, FF, CR and
  the space. Characters beyond ASCII are outside this model.
\<close>

definition toLowerChar :: "char \<Rightarrow> char" where
  "toLowerChar c =
     (let n = (of_char c :: nat) in if 65 \<le> n \<and> n \<le> 90 then char_of (n + 32) else c)"

definition toUpperChar :: "char \<Rightarrow> char" where
  "toUpperChar c =
     (let n = (of_char c :: nat) in if 97 \<le> n \<and> n \<le> 122 then char_of (n - 32) else c)"

definition toLowerCase :: "string \<Rightarrow> string" where
  "toLowerCase s = map toLowerChar s"

definition isSpace :: "char \<Rightarrow> bool" where
  "isSpace c = (let n = (of_char c :: nat) in (9 \<le> n \<and> n \<le> 13) \<or> n = 32)"

definition trim :: "string \<Rightarrow> string" where
  "trim s = rev (dropWhile isSpace (rev (dropWhile isSpace s)))"

text \<open>
  A string-valued property that may be absent: \<open>None\<close> is \<open>undefined\<close> or \<open>null\<close>.
  JavaScript treats the absent value and the empty string as false in a condition.
\<close>

definition truthy :: "string option \<Rightarrow> bool" where
  "truthy v = (case v of None \<Rightarrow> False | Some s \<Rightarrow> s \<noteq> [])"

subsection \<open>Dates\<close>

text \<open>
  A \<open>Date\<close> is its time value: milliseconds since the epoch. A date-valued property of a
  record arrives as a raw JSON value that the code tests for truth and then hands to
  \<open>new Date\<close>. \<open>Missing\<close> is a false raw value (\<open>undefined\<close>, \<open>null\<close>, the empty
  string); \<open>Raw tv\<close> is a true raw value and \<open>tv\<close> the time value \<open>new Date\<close> gives
  it, \<open>None\<close> for an Invalid Date, whose time value is NaN.
\<close>

datatype rawdate = Missing | Raw "int option"

text \<open>The time value of \<open>new Date(v)\<close> for a true raw value \<open>v\<close>.\<close>

definition timeValue :: "rawdate \<Rightarrow> int option" where
  "timeValue d = (case d of Missing \<Rightarrow> None | Raw tv \<Rightarrow> tv)"

text \<open>
  \<open>new Date(a) >= b\<close> for a valid date \<open>b\<close>: a comparison with NaN is false.
\<close>

definition dateGe :: "int option \<Rightarrow> int \<Rightarrow> bool" where
  "dateGe a b = (case a of None \<Rightarrow> False | Some t \<Rightarrow> b \<le> t)"

text \<open>
  \<open>(expirationDate - now) / (1000 * 60 * 60 * 24) <= 30\<close>. Time values are integers, and 30
  days is a whole number of milliseconds, so the comparison of the rounded quotient agrees
  with the comparison of the exact quotient; with an Invalid Date the quotient is NaN and
  the comparison is false.
\<close>

definition daysUntilExpiration :: "int \<Rightarrow> int \<Rightarrow> real" where
  "daysUntilExpiration expiration now = real_of_int (expiration - now) / (1000 * 60 * 60 * 24)"

definition withinThirtyDays :: "int option \<Rightarrow> int \<Rightarrow> bool" where
  "withinThirtyDays expiration now =
     (case expiration of None \<Rightarrow> False | Some e \<Rightarrow> daysUntilExpiration e now \<le> 30)"

subsection \<open>Partnership records as the dashboard reads them\<close>

record aau_contact =
  interestedCollegeOrDepartment :: "string option"

record partner_institution =
  country :: "string option"

record partnership =
  status :: "string option"
  expirationDate :: rawdate
  createdAt :: rawdate
  aauContact :: "aau_contact option"
  partnerInstitution :: "partner_institution option"

text \<open>\<open>p.aauContact?.interestedCollegeOrDepartment\<close> and \<open>p.partnerInstitution?.country\<close>.\<close>

definition collegeOf :: "partnership \<Rightarrow> string option" where
  "collegeOf p = (case aauContact p of None \<Rightarrow> None | Some a \<Rightarrow> interestedCollegeOrDepartment a)"

definition countryOf :: "partnership \<Rightarrow> string option" where
  "countryOf p = (case partnerInstitution p of None \<Rightarrow> None | Some i \<Rightarrow> country i)"

section \<open>Status derivation\<close>

text \<open>
  The body of the \<open>map\<close> callback of \<open>processChartData\<close>; \<open>now\<close> is the time value of
  the function's \<open>now\<close> object when the callback runs.
\<close>

definition chartDerivedStatus :: "int \<Rightarrow> partnership \<Rightarrow> string" where
  "chartDerivedStatus now p =
     (let derivedStatus = (if truthy (status p)
                           then (case status p of Some s \<Rightarrow> toLowerCase s | None \<Rightarrow> [])
                           else ''pending'')
      in if expirationDate p \<noteq> Missing \<and> status p = Some ''Active''
         then (if withinThirtyDays (timeValue (expirationDate p)) now
               then ''expiringSoon'' else ''active'')
         else if derivedStatus = ''rejected'' then ''expired''
         else if derivedStatus = ''pending'' then ''prospect''
         else derivedStatus)"

text \<open>The same statements in the \<open>forEach\<close> callback of \<open>processLineData\<close>.\<close>

definition lineDerivedStatus :: "int \<Rightarrow> partnership \<Rightarrow> string" where
  "lineDerivedStatus now p =
     (let derivedStatus = (if truthy (status p)
                           then (case status p of Some s \<Rightarrow> toLowerCase s | None \<Rightarrow> [])
                           else ''pending'')
      in if expirationDate p \<noteq> Missing \<and> status p = Some ''Active''
         then (if withinThirtyDays (timeValue (expirationDate p)) now
               then ''expiringSoon'' else ''active'')
         else if derivedStatus = ''rejected'' then ''expired''
         else if derivedStatus = ''pending'' then ''prospect''
         else derivedStatus)"




section \<open>The calendar of \<open>Date\<close>\<close>

text \<open>
  \<open>Date\<close> is the host's; its local-time getters and setters are modelled after the
  language standard (Day, TimeWithinDay, MakeDay, MakeDate), with the local time zone taken
  to be UTC. Months are numbered from 0. \<open>civilFromDays\<close> and \<open>daysFromCivil\<close> convert
  between a day number (days since 1970-01-01) and a date of the proleptic Gregorian
  calendar, by counting in 400-year eras that start on 1 March.
\<close>

definition msPerDay :: int where
  "msPerDay = 86400000"

definition civilFromDays :: "int \<Rightarrow> int \<times> int \<times> int" where
  "civilFromDays z =
     (let z' = z + 719468;
          era = z' div 146097;
          doe = z' mod 146097;
          yoe = (doe - doe div 1460 + doe div 36524 - doe div 146096) div 365;
          doy = doe - (365 * yoe + yoe div 4 - yoe div 100);
          mp = (5 * doy + 2) div 153;
          d = doy - (153 * mp + 2) div 5 + 1;
          m = (if mp < 10 then mp + 2 else mp - 10);
          y = yoe + era * 400 + (if m \<le> 1 then 1 else 0)
      in (y, m, d))"

definition daysFromCivil :: "int \<Rightarrow> int \<Rightarrow> int \<Rightarrow> int" where
  "daysFromCivil y m d =
     (let y' = y - (if m \<le> 1 then 1 else 0);
          era = y' div 400;
          yoe = y' mod 400;
          mp = (if 2 \<le> m then m - 2 else m + 10);
          doy = (153 * mp + 2) div 5 + d - 1;
          doe = yoe * 365 + yoe div 4 - yoe div 100 + doy
      in era * 146097 + doe - 719468)"

definition getFullYear :: "int \<Rightarrow> int" where
  "getFullYear t = fst (civilFromDays (t div msPerDay))"

definition getMonth :: "int \<Rightarrow> int" where
  "getMonth t = fst (snd (civilFromDays (t div msPerDay)))"

definition getDate :: "int \<Rightarrow> int" where
  "getDate t = snd (snd (civilFromDays (t div msPerDay)))"

definition makeDay :: "int \<Rightarrow> int \<Rightarrow> int \<Rightarrow> int" where
  "makeDay year month date = daysFromCivil (year + month div 12) (month mod 12) 1 + date - 1"

definition makeDate :: "int \<Rightarrow> int \<Rightarrow> int" where
  "makeDate day time = day * msPerDay + time"

text \<open>
  The setters change the \<open>Date\<close> object in place and return its new time value; the model
  returns the new time value, which the caller must use for the object from then on.
\<close>

definition setDate :: "int \<Rightarrow> int \<Rightarrow> int" where
  "setDate t date = makeDate (makeDay (getFullYear t) (getMonth t) date) (t mod msPerDay)"

definition setMonth :: "int \<Rightarrow> int \<Rightarrow> int" where
  "setMonth t month = makeDate (makeDay (getFullYear t) month (getDate t)) (t mod msPerDay)"

definition setFullYear :: "int \<Rightarrow> int \<Rightarrow> int" where
  "setFullYear t year = makeDate (makeDay year (getMonth t) (getDate t)) (t mod msPerDay)"

section \<open>Objects used as dictionaries\<close>

text \<open>
  An object literal inherits from \<open>Object.prototype\<close>, so a lookup \<open>obj[key]\<close> with a
  key that the object does not own finds an inherited member when the key is one of these
  names, and \<open>undefined\<close> otherwise. All but \<open>__proto__\<close> name functions; \<open>__proto__\<close>
  reads as \<open>Object.prototype\<close> itself, and assigning a primitive value to it is ignored.
\<close>

definition inheritedFunctionNames :: "string list" where
  "inheritedFunctionNames =
     [''constructor'', ''hasOwnProperty'', ''isPrototypeOf'', ''propertyIsEnumerable'',
      ''toLocaleString'', ''toString'', ''valueOf'', ''__defineGetter__'',
      ''__defineSetter__'', ''__lookupGetter__'', ''__lookupSetter__'']"

definition objectPrototypeNames :: "string list" where
  "objectPrototypeNames = ''__proto__'' # inheritedFunctionNames"

text \<open>
  What the code can raise. \<open>HostDefined\<close> is not an exception: it marks a statement that
  goes on to read or write a property of a built-in object reached through the prototype
  chain, or of a string primitive; what that does is fixed by the host's built-ins, which
  are no part of this model.
\<close>

datatype js_error = TypeError | HostDefined

text \<open>
  The value of a counter \<open>acc[key]\<close> maintained by \<open>acc[key] = (acc[key] || 0) + 1\<close>:
  a number, or, when the first read found an inherited function, the text of that function
  (named by the key) followed by a number of digits 1.
\<close>

datatype cell = Num nat | Text string nat

definition bump :: "(string \<rightharpoonup> cell) \<Rightarrow> string \<Rightarrow> (string \<rightharpoonup> cell)" where
  "bump acc key =
     (if key = ''__proto__'' then acc
      else case acc key of
             Some (Num n) \<Rightarrow> acc(key \<mapsto> Num (n + 1))
           | Some (Text f n) \<Rightarrow> acc(key \<mapsto> Text f (n + 1))
           | None \<Rightarrow>
               if key \<in> set inheritedFunctionNames then acc(key \<mapsto> Text key 1)
               else acc(key \<mapsto> Num 1))"

section \<open>The dashboard's aggregations\<close>

definition colleges :: "string list" where
  "colleges =
     [''All Colleges'', ''Central'', ''College of Business and Economics'',
      ''College of Social Science, Arts and Humanities'',
      ''College of Veterinary Medicine and Agriculture'', ''School of Law'',
      ''College of Technology and Built Environment'',
      ''College of Education and Language Studies'', ''College of Health Science'']"

text \<open>
  The start of the time window and the time value of \<open>now\<close> afterwards. The setters move
  \<open>now\<close> itself, and \<open>startDate\<close> is a copy of the moved \<open>now\<close>; with any filter
  other than the three named ones \<open>now\<close> stays at the clock reading.
\<close>

definition timeWindow :: "string \<Rightarrow> int \<Rightarrow> int \<times> int" where
  "timeWindow timeFilter clock =
     (if timeFilter = ''Weekly''
      then (let t = setDate clock (getDate clock - 7) in (t, t))
      else if timeFilter = ''Monthly''
      then (let t = setMonth clock (getMonth clock - 1) in (t, t))
      else if timeFilter = ''Yearly''
      then (let t = setFullYear clock (getFullYear clock - 1) in (t, t))
      else (0, clock))"

text \<open>\<open>p.createdAt && new Date(p.createdAt) >= startDate\<close>.\<close>

definition createdSince :: "int \<Rightarrow> partnership \<Rightarrow> bool" where
  "createdSince startDate p =
     (case createdAt p of Missing \<Rightarrow> False | Raw tv \<Rightarrow> dateGe tv startDate)"

subsection \<open>\<open>processChartData\<close>\<close>

record 'a buckets =
  active :: 'a
  expiringSoon :: 'a
  expired :: 'a
  prospect :: 'a

record chart_data =
  collegeData :: "(string \<times> nat buckets) list"
  totalData :: "string \<rightharpoonup> cell"

text \<open>The records of the window, each with the \<open>derivedStatus\<close> the callback adds.\<close>

definition processedPartnerships ::
  "string \<Rightarrow> int \<Rightarrow> partnership list \<Rightarrow> (partnership \<times> string) list" where
  "processedPartnerships timeFilter clock partnerships =
     (let (startDate, now) = timeWindow timeFilter clock;
          filteredPartnerships = filter (createdSince startDate) partnerships
      in map (\<lambda>p. (p, chartDerivedStatus now p)) filteredPartnerships)"

definition countStatus :: "(partnership \<times> string) list \<Rightarrow> string \<Rightarrow> nat" where
  "countStatus ps s = length (filter (\<lambda>(p, derivedStatus). derivedStatus = s) ps)"

definition collegeCounts ::
  "string \<Rightarrow> (partnership \<times> string) list \<Rightarrow> string \<Rightarrow> nat buckets" where
  "collegeCounts collegeFilter processed college =
     (let collegePartnerships =
            filter (\<lambda>(p, derivedStatus).
                      collegeOf p = Some college \<or> collegeFilter = ''All Colleges'') processed
      in \<lparr>active = countStatus collegePartnerships ''active'',
          expiringSoon = countStatus collegePartnerships ''expiringSoon'',
          expired = countStatus collegePartnerships ''expired'',
          prospect = countStatus collegePartnerships ''prospect''\<rparr>)"

definition initialTotal :: "string \<rightharpoonup> cell" where
  "initialTotal =
     [''active'' \<mapsto> Num 0, ''expiringSoon'' \<mapsto> Num 0, ''expired'' \<mapsto> Num 0,
      ''prospect'' \<mapsto> Num 0]"

text \<open>
  The guard \<open>!Array.isArray(partnerships)\<close> of the aggregations never fires: the state
  is only ever set to an array, so the model takes a list.
\<close>

definition processChartData ::
  "string \<Rightarrow> string \<Rightarrow> int \<Rightarrow> partnership list \<Rightarrow> chart_data" where
  "processChartData timeFilter collegeFilter clock partnerships =
     (let processed = processedPartnerships timeFilter clock partnerships
      in \<lparr>collegeData =
            map (\<lambda>college. (college, collegeCounts collegeFilter processed college))
              (filter (\<lambda>college. college \<noteq> ''All Colleges'') colleges),
          totalData = fold (\<lambda>(p, derivedStatus) acc. bump acc derivedStatus) processed
                        initialTotal\<rparr>)"

subsection \<open>\<open>processLineData\<close>\<close>

text \<open>
  \<open>lineDataByCollege\<close>: for "All Colleges" and each college, four arrays of 12 counters.
  The month labels, which depend on the host's locale, are left out.
\<close>

type_synonym line_data = "string \<rightharpoonup> nat list buckets"

definition emptySeries :: "nat list buckets" where
  "emptySeries = \<lparr>active = replicate 12 0, expiringSoon = replicate 12 0,
                   expired = replicate 12 0, prospect = replicate 12 0\<rparr>"

definition initialLineData :: line_data where
  "initialLineData =
     fold (\<lambda>college acc. if college = ''All Colleges'' then acc else acc(college \<mapsto> emptySeries))
       colleges [''All Colleges'' \<mapsto> emptySeries]"

definition bucketNames :: "string list" where
  "bucketNames = [''active'', ''expired'', ''expiringSoon'', ''prospect'']"

text \<open>\<open>xs[i]++\<close> on an array; every array here has 12 slots and \<open>i\<close> is below 12.\<close>

definition incrementAt :: "nat list \<Rightarrow> nat \<Rightarrow> nat list" where
  "incrementAt xs i = (if i < length xs then xs[i := xs ! i + 1] else xs)"

definition incrementBucket :: "nat list buckets \<Rightarrow> string \<Rightarrow> nat \<Rightarrow> nat list buckets" where
  "incrementBucket e derivedStatus i =
     (if derivedStatus = ''active'' then e\<lparr>active := incrementAt (active e) i\<rparr>
      else if derivedStatus = ''expired'' then e\<lparr>expired := incrementAt (expired e) i\<rparr>
      else if derivedStatus = ''expiringSoon''
      then e\<lparr>expiringSoon := incrementAt (expiringSoon e) i\<rparr>
      else if derivedStatus = ''prospect'' then e\<lparr>prospect := incrementAt (prospect e) i\<rparr>
      else e)"

text \<open>
  \<open>lineDataByCollege[college][derivedStatus][monthIndex]++\<close>. An entry the object owns has
  the four arrays; any other status name finds an inherited member, which takes the write
  without a visible effect, or \<open>undefined\<close>, whose index raises. A college the object does
  not own is \<open>undefined\<close>, or an inherited member: none of those has a property named as a
  bucket, so the index raises for the four buckets.
\<close>

definition incrementSeries ::
  "line_data \<Rightarrow> string \<Rightarrow> string \<Rightarrow> nat \<Rightarrow> js_error + line_data" where
  "incrementSeries lineData college derivedStatus monthIndex =
     (case lineData college of
        Some e \<Rightarrow>
          if derivedStatus \<in> set bucketNames
          then Inr (lineData(college \<mapsto> incrementBucket e derivedStatus monthIndex))
          else if derivedStatus \<in> set objectPrototypeNames then Inr lineData
          else Inl TypeError
      | None \<Rightarrow>
          if college \<in> set objectPrototypeNames \<and> derivedStatus \<notin> set bucketNames
          then Inl HostDefined
          else Inl TypeError)"

text \<open>The month index; NaN (\<open>None\<close>) when \<open>createdAt\<close> is an Invalid Date.\<close>

definition monthIndexOf :: "int \<Rightarrow> int option \<Rightarrow> int option" where
  "monthIndexOf now created =
     (case created of
        None \<Rightarrow> None
      | Some c \<Rightarrow>
          Some ((getFullYear c - getFullYear now) * 12 + getMonth c - (getMonth now - 11)))"

text \<open>The \<open>forEach\<close> callback, as a step on \<open>lineDataByCollege\<close>.\<close>

definition lineStep ::
  "string \<Rightarrow> int \<Rightarrow> partnership \<Rightarrow> line_data \<Rightarrow> js_error + line_data" where
  "lineStep collegeFilter now p lineData =
     (if createdAt p = Missing \<or> \<not> truthy (collegeOf p) then Inr lineData
      else
        (let college = (case collegeOf p of Some c \<Rightarrow> c | None \<Rightarrow> []);
             derivedStatus = lineDerivedStatus now p
         in (case monthIndexOf now (timeValue (createdAt p)) of
               None \<Rightarrow> Inr lineData
             | Some monthIndex \<Rightarrow>
                 (if 0 \<le> monthIndex \<and> monthIndex < 12
                  then (if collegeFilter = ''All Colleges'' \<or> college = collegeFilter
                        then (case incrementSeries lineData college derivedStatus
                                     (nat monthIndex) of
                                Inl e \<Rightarrow> Inl e
                              | Inr lineData' \<Rightarrow>
                                  incrementSeries lineData' ''All Colleges'' derivedStatus
                                    (nat monthIndex))
                        else Inr lineData)
                  else Inr lineData))))"

text \<open>\<open>forEach\<close>: an exception in the callback ends the loop and the function.\<close>

fun forEachRecord ::
  "(partnership \<Rightarrow> line_data \<Rightarrow> js_error + line_data) \<Rightarrow> partnership list \<Rightarrow> line_data
     \<Rightarrow> js_error + line_data" where
  "forEachRecord f [] lineData = Inr lineData"
| "forEachRecord f (p # ps) lineData =
     (case f p lineData of Inl e \<Rightarrow> Inl e | Inr lineData' \<Rightarrow> forEachRecord f ps lineData')"

definition processLineData ::
  "string \<Rightarrow> int \<Rightarrow> partnership list \<Rightarrow> js_error + line_data" where
  "processLineData collegeFilter now partnerships =
     forEachRecord (lineStep collegeFilter now) partnerships initialLineData"

subsection \<open>\<open>processHeatmapData\<close>\<close>

definition countryMap :: "(string \<times> string) list" where
  "countryMap =
     [(''united states'', ''United States''), (''usa'', ''United States''),
      (''united states of america'', ''United States''),
      (''united kingdom'', ''United Kingdom''), (''uk'', ''United Kingdom''),
      (''great britain'', ''United Kingdom''), (''south korea'', ''South Korea''),
      (''korea, republic of'', ''South Korea''), (''russia'', ''Russian Federation''),
      (''china'', ''China''), (''taiwan'', ''Taiwan''), (''ethiopia'', ''Ethiopia'')]"

text \<open>\<open>s.charAt(0).toUpperCase() + s.slice(1)\<close>.\<close>

fun capitalize :: "string \<Rightarrow> string" where
  "capitalize [] = []"
| "capitalize (c # cs) = toUpperChar c # cs"

text \<open>
  \<open>countryMap[normalized]\<close> is a string the table owns, or \<open>undefined\<close>, or an inherited
  member of \<open>Object.prototype\<close>: that one is true in the condition and has no \<open>charAt\<close>,
  so the call raises.
\<close>

definition normalizeCountryName :: "string option \<Rightarrow> js_error + string" where
  "normalizeCountryName name =
     (if \<not> truthy name then Inr ''Unknown''
      else
        (let n = (case name of Some x \<Rightarrow> x | None \<Rightarrow> []);
             normalized = toLowerCase (trim n)
         in (case map_of countryMap normalized of
               Some mappedName \<Rightarrow>
                 (if mappedName \<noteq> [] then Inr (capitalize mappedName)
                  else Inr (capitalize n))
             | None \<Rightarrow>
                 (if normalized \<in> set objectPrototypeNames then Inl TypeError
                  else Inr (capitalize n)))))"

definition heatmapFilter :: "string \<Rightarrow> int \<Rightarrow> partnership \<Rightarrow> bool" where
  "heatmapFilter collegeFilter startDate p =
     (createdSince startDate p \<and>
      (collegeFilter = ''All Colleges'' \<or> collegeOf p = Some collegeFilter))"

text \<open>The \<open>reduce\<close> callback that counts a record under its normalized country.\<close>

definition countCountry ::
  "(string \<rightharpoonup> cell) \<Rightarrow> partnership \<Rightarrow> js_error + (string \<rightharpoonup> cell)" where
  "countCountry acc p =
     (case normalizeCountryName (countryOf p) of
        Inl e \<Rightarrow> Inl e
      | Inr n \<Rightarrow> Inr (bump acc (if n \<noteq> [] then n else ''Unknown'')))"

fun reduceCountries ::
  "partnership list \<Rightarrow> (string \<rightharpoonup> cell) \<Rightarrow> js_error + (string \<rightharpoonup> cell)" where
  "reduceCountries [] acc = Inr acc"
| "reduceCountries (p # ps) acc =
     (case countCountry acc p of Inl e \<Rightarrow> Inl e | Inr acc' \<Rightarrow> reduceCountries ps acc')"

text \<open>
  \<open>countryCounts\<close>, the first component of the result. The colour scale, computed by a
  library in floating point, is left out.
\<close>

definition processHeatmapData ::
  "string \<Rightarrow> string \<Rightarrow> int \<Rightarrow> partnership list \<Rightarrow> js_error + (string \<rightharpoonup> cell)" where
  "processHeatmapData timeFilter collegeFilter clock partnerships =
     (let (startDate, now) = timeWindow timeFilter clock;
          filteredPartnerships = filter (heatmapFilter collegeFilter startDate) partnerships
      in reduceCountries filteredPartnerships Map.empty)"

section \<open>Objects of the edit form\<close>

datatype jsval = Undefined | Null | Str string | Obj "(string \<times> jsval) list"

text \<open>
  What a handler does to the world outside the component's state: calls of the API wrapper,
  notifications, navigation.
\<close>

datatype effect =
    GetPartnerships "string option"
  | UpdatePartnership string "(string \<times> jsval) list"
  | ToastError string
  | ToastInfo string
  | ToastSuccess string
  | Navigate string

text \<open>
  What a \<open>catch\<close> block receives: an exception raised by the code itself, or the error
  object of a failed request or conversion, with its message.
\<close>

datatype thrown = Raised js_error | Failed string

section \<open>The dashboard's record fetcher\<close>

text \<open>
  How \<open>getPartnerships\<close> settles. A resolved response has a body (\<open>response.data\<close>) or
  none; the \<open>partnerships\<close> of a body is an array or something else (\<open>None\<close>). A
  rejection carries an error object; \<open>error.response?.data?.message\<close> is a string or absent.
\<close>

datatype response = NoBody | Body "partnership list option"

datatype fetch_result = Resolved response | RejectedWith "string option"

record dashboard_state =
  partnerships :: "partnership list"
  loading :: bool

text \<open>\<open>fetchPartnerships\<close> up to the \<open>await\<close>.\<close>

definition fetchBegin :: "string \<Rightarrow> dashboard_state \<Rightarrow> dashboard_state \<times> effect list" where
  "fetchBegin collegeFilter s =
     (s\<lparr>loading := True\<rparr>,
      [GetPartnerships (if collegeFilter \<noteq> ''All Colleges'' then Some collegeFilter else None)])"

text \<open>The \<open>catch\<close> block.\<close>

definition fetchCatch :: "string option \<Rightarrow> dashboard_state \<Rightarrow> dashboard_state \<times> effect list" where
  "fetchCatch message s =
     (s\<lparr>partnerships := [], loading := False\<rparr>,
      [ToastError (case message of
                     None \<Rightarrow> ''Failed to fetch partnerships''
                   | Some m \<Rightarrow> if m \<noteq> [] then m else ''Failed to fetch partnerships'')])"

text \<open>
  \<open>fetchPartnerships\<close> from the \<open>await\<close> on. Reading \<open>response.data.partnerships\<close> of
  a response without a body raises a TypeError, which has no \<open>response\<close>.
\<close>

definition fetchSettle :: "fetch_result \<Rightarrow> dashboard_state \<Rightarrow> dashboard_state \<times> effect list" where
  "fetchSettle r s =
     (case r of
        Resolved NoBody \<Rightarrow> fetchCatch None s
      | Resolved (Body d) \<Rightarrow>
          (s\<lparr>partnerships := (case d of Some ps \<Rightarrow> ps | None \<Rightarrow> []), loading := False\<rparr>, [])
      | RejectedWith message \<Rightarrow> fetchCatch message s)"

section \<open>The edit form\<close>

text \<open>
  \<open>obj[key]\<close>: reading a property of \<open>null\<close> or \<open>undefined\<close> raises; an object gives
  the value it owns, or \<open>undefined\<close> when the key names nothing it inherits. A key that
  names an inherited member, and any property of a string primitive, lead to built-ins of
  the host.
\<close>

definition getProp :: "jsval \<Rightarrow> string \<Rightarrow> js_error + jsval" where
  "getProp obj key =
     (case obj of
        Undefined \<Rightarrow> Inl TypeError
      | Null \<Rightarrow> Inl TypeError
      | Str s \<Rightarrow> Inl HostDefined
      | Obj kvs \<Rightarrow>
          (case map_of kvs key of
             Some v \<Rightarrow> Inr v
           | None \<Rightarrow> if key \<in> set objectPrototypeNames then Inl HostDefined else Inr Undefined))"

text \<open>\<open>obj[key] = v\<close> on an object that owns \<open>key\<close> or gets it as a new, last property.\<close>

fun setOwn :: "(string \<times> jsval) list \<Rightarrow> string \<Rightarrow> jsval \<Rightarrow> (string \<times> jsval) list" where
  "setOwn [] key v = [(key, v)]"
| "setOwn ((k, w) # kvs) key v = (if k = key then (k, v) # kvs else (k, w) # setOwn kvs key v)"

text \<open>\<open>s.split(c)\<close>.\<close>

fun splitOn :: "char \<Rightarrow> string \<Rightarrow> string list" where
  "splitOn c [] = [[]]"
| "splitOn c (x # xs) =
     (if x = c then [] # splitOn c xs
      else case splitOn c xs of w # ws \<Rightarrow> (x # w) # ws | [] \<Rightarrow> [[x]])"

text \<open>
  The branch of \<open>compareObjects\<close> that stores a changed value in \<open>changes\<close>: under
  \<open>changes[section][field]\<close> when the path has a dot, after creating \<open>changes[section]\<close>
  where it is missing or false, and under \<open>changes[key]\<close> otherwise. Writing a property of
  a string primitive raises, the module being in strict mode.
\<close>

definition recordChange ::
  "(string \<times> jsval) list \<Rightarrow> string \<Rightarrow> string \<Rightarrow> jsval \<Rightarrow> js_error + (string \<times> jsval) list" where
  "recordChange changes currentPath key v =
     (if CHR ''.'' \<in> set currentPath
      then (case splitOn CHR ''.'' currentPath of
              section # field # _ \<Rightarrow>
                (case (case map_of changes section of
                         Some (Obj fs) \<Rightarrow> Inr fs
                       | Some (Str s) \<Rightarrow> if s = [] then Inr [] else Inl TypeError
                       | Some Undefined \<Rightarrow> Inr []
                       | Some Null \<Rightarrow> Inr []
                       | None \<Rightarrow>
                           if section \<in> set objectPrototypeNames then Inl HostDefined
                           else Inr []) of
                   Inl e \<Rightarrow> Inl e
                 | Inr fs \<Rightarrow>
                     if field = ''__proto__'' then Inl HostDefined
                     else Inr (setOwn changes section (Obj (setOwn fs field v))))
            | _ \<Rightarrow> Inl HostDefined)
      else if key = ''__proto__'' then Inl HostDefined
      else Inr (setOwn changes key v))"

text \<open>
  \<open>compareObjects(obj1, obj2, path)\<close>, with \<open>changes\<close> passed along: the loop over the
  keys of \<open>obj1\<close> in order, descending into the values that are objects.
\<close>

fun compareObjects ::
  "(string \<times> jsval) list \<Rightarrow> jsval \<Rightarrow> string \<Rightarrow> (string \<times> jsval) list
     \<Rightarrow> js_error + (string \<times> jsval) list" where
  "compareObjects [] obj2 path changes = Inr changes"
| "compareObjects ((key, Obj sub) # rest) obj2 path changes =
     (case getProp obj2 key of
        Inl e \<Rightarrow> Inl e
      | Inr v2 \<Rightarrow>
          (case compareObjects sub v2 (if path \<noteq> [] then path @ ''.'' @ key else key) changes of
             Inl e \<Rightarrow> Inl e
           | Inr changes' \<Rightarrow> compareObjects rest obj2 path changes'))"
| "compareObjects ((key, v1) # rest) obj2 path changes =
     (case getProp obj2 key of
        Inl e \<Rightarrow> Inl e
      | Inr v2 \<Rightarrow>
          if v1 \<noteq> v2
          then (case recordChange changes (if path \<noteq> [] then path @ ''.'' @ key else key)
                       key v1 of
                  Inl e \<Rightarrow> Inl e
                | Inr changes' \<Rightarrow> compareObjects rest obj2 path changes')
          else compareObjects rest obj2 path changes)"

definition getChangedFields ::
  "(string \<times> jsval) list \<Rightarrow> jsval \<Rightarrow> js_error + (string \<times> jsval) list" where
  "getChangedFields formData originalData = compareObjects formData originalData [] []"

text \<open>
  The object that \<open>fetchPartnership\<close> builds as \<open>formattedData\<close> and that \<open>useState\<close>
  starts \<open>formData\<close> with: \<open>v\<close> gives the string under each name, nested names written
  with a dot as the inputs of the form have them.
\<close>

definition formObject :: "(string \<Rightarrow> string) \<Rightarrow> (string \<times> jsval) list" where
  "formObject v =
     [(''name'', Str (v ''name'')),
      (''type'', Str (v ''type'')),
      (''signedDate'', Str (v ''signedDate'')),
      (''endDate'', Str (v ''endDate'')),
      (''region'', Str (v ''region'')),
      (''country'', Str (v ''country'')),
      (''college'', Str (v ''college'')),
      (''status'', Str (v ''status'')),
      (''description'', Str (v ''description'')),
      (''partnerInstitution'',
         Obj [(''name'', Str (v ''partnerInstitution.name'')),
              (''website'', Str (v ''partnerInstitution.website'')),
              (''address'', Str (v ''partnerInstitution.address'')),
              (''country'', Str (v ''partnerInstitution.country''))]),
      (''aauContact'',
         Obj [(''name'', Str (v ''aauContact.name'')),
              (''email'', Str (v ''aauContact.email'')),
              (''phone'', Str (v ''aauContact.phone'')),
              (''title'', Str (v ''aauContact.title'')),
              (''address'', Str (v ''aauContact.address''))]),
      (''partnerContactPerson'',
         Obj [(''name'', Str (v ''partnerContactPerson.name'')),
              (''email'', Str (v ''partnerContactPerson.email'')),
              (''phone'', Str (v ''partnerContactPerson.phone'')),
              (''title'', Str (v ''partnerContactPerson.title'')),
              (''address'', Str (v ''partnerContactPerson.address''))]),
      (''potentialStartDate'', Str (v ''potentialStartDate''))]"

text \<open>
  The state of the component; \<open>formLoading\<close> is its \<open>loading\<close> flag, and \<open>error\<close>
  holds the error whose message the component stores.
\<close>

record edit_state =
  formLoading :: bool
  submitting :: bool
  error :: "thrown option"
  originalData :: jsval
  formData :: "(string \<times> jsval) list"

definition initialEditState :: edit_state where
  "initialEditState =
     \<lparr>formLoading = True, submitting = False, error = None, originalData = Null,
      formData = formObject (\<lambda>_. [])\<rparr>"

text \<open>
  How the load settles: the record arrived and was formatted, \<open>v\<close> giving the formatted
  strings, or the request or the formatting failed.
\<close>

datatype load_result = Loaded "string \<Rightarrow> string" | LoadFailed thrown

definition fetchPartnership :: "load_result \<Rightarrow> edit_state \<Rightarrow> edit_state \<times> effect list" where
  "fetchPartnership r s =
     (case r of
        Loaded v \<Rightarrow>
          (s\<lparr>formData := formObject v, originalData := Obj (formObject v),
             formLoading := False\<rparr>, [])
      | LoadFailed e \<Rightarrow>
          (s\<lparr>error := Some e, formLoading := False\<rparr>,
           [ToastError ''Failed to load partnership details'']))"

text \<open>The component shows the spinner while loading and the form otherwise.\<close>

definition rendersForm :: "edit_state \<Rightarrow> bool" where
  "rendersForm s = (\<not> formLoading s)"

text \<open>
  \<open>handleSubmit\<close>. \<open>toastInfo\<close> says whether the \<open>toast\<close> object of the notification
  library has the method \<open>info\<close> that the handler calls, and calls nowhere else in the
  repository (\<open>success\<close> and \<open>error\<close> are used on every screen); calling a method
  that is not there raises a TypeError. The library that the component imports,
  react-hot-toast, has no such method, so \<open>False\<close> is the case that runs. \<open>updateResult\<close> is how \<open>updatePartnership\<close> settles when it is
  called: \<open>None\<close> when it resolves, the error when it rejects. Whatever is raised inside
  the \<open>try\<close> block goes to the \<open>catch\<close> block, and the \<open>finally\<close> block resets the
  submitting flag on every path.
\<close>

definition handleSubmit ::
  "bool \<Rightarrow> string \<Rightarrow> thrown option \<Rightarrow> edit_state \<Rightarrow> edit_state \<times> effect list" where
  "handleSubmit toastInfo ident updateResult s =
     (let s1 = s\<lparr>submitting := True, error := None\<rparr>
      in case getChangedFields (formData s1) (originalData s1) of
           Inl e \<Rightarrow>
             (s1\<lparr>error := Some (Raised e), submitting := False\<rparr>,
              [ToastError ''Failed to update partnership''])
         | Inr changedFields \<Rightarrow>
             if length (map fst changedFields) = 0
             then (if toastInfo
                   then (s1\<lparr>submitting := False\<rparr>, [ToastInfo ''No changes to save''])
                   else (s1\<lparr>error := Some (Raised TypeError), submitting := False\<rparr>,
                         [ToastError ''Failed to update partnership'']))
             else (case updateResult of
                     None \<Rightarrow>
                       (s1\<lparr>submitting := False\<rparr>,
                        [UpdatePartnership ident changedFields,
                         ToastSuccess ''Partnership updated successfully'',
                         Navigate ''/partnership''])
                   | Some e \<Rightarrow>
                       (s1\<lparr>error := Some e, submitting := False\<rparr>,
                        [UpdatePartnership ident changedFields,
                         ToastError ''Failed to update partnership''])))"

section \<open>Observations on results\<close>

text \<open>The count of a country in the result of \<open>processHeatmapData\<close>, if it has one.\<close>

definition countryCount :: "js_error + (string \<rightharpoonup> cell) \<Rightarrow> string \<Rightarrow> cell option" where
  "countryCount r name = (case r of Inl e \<Rightarrow> None | Inr counts \<Rightarrow> counts name)"

text \<open>The array of a bucket, and the counter of a college, bucket and month.\<close>

definition seriesOf :: "string \<Rightarrow> nat list buckets \<Rightarrow> nat list" where
  "seriesOf derivedStatus e =
     (if derivedStatus = ''active'' then active e
      else if derivedStatus = ''expired'' then expired e
      else if derivedStatus = ''expiringSoon'' then expiringSoon e
      else if derivedStatus = ''prospect'' then prospect e
      else [])"

definition countAt :: "line_data \<Rightarrow> string \<Rightarrow> string \<Rightarrow> nat \<Rightarrow> nat" where
  "countAt lineData college derivedStatus i =
     (case lineData college of None \<Rightarrow> 0 | Some e \<Rightarrow> seriesOf derivedStatus e ! i)"

text \<open>
  The shape that \<open>lineDataByCollege\<close> keeps: an entry for "All Colleges" and for each
  college of the list, each with four arrays of 12 counters.
\<close>

definition twelveSlots :: "nat list buckets \<Rightarrow> bool" where
  "twelveSlots e =
     (length (active e) = 12 \<and> length (expired e) = 12 \<and> length (expiringSoon e) = 12 \<and>
      length (prospect e) = 12)"

definition lineShape :: "line_data \<Rightarrow> bool" where
  "lineShape lineData =
     (dom lineData = set colleges \<and> (\<forall>c e. lineData c = Some e \<longrightarrow> twelveSlots e))"

text \<open>
  A record as the API delivers it, with a status, the two dates, the college of the
  university's contact and the country of the partner institution.
\<close>

definition partnershipOf ::
  "string \<Rightarrow> rawdate \<Rightarrow> rawdate \<Rightarrow> string \<Rightarrow> string \<Rightarrow> partnership" where
  "partnershipOf st expiration created college countryName =
     \<lparr>status = Some st, expirationDate = expiration, createdAt = created,
      aauContact = Some \<lparr>interestedCollegeOrDepartment = Some college\<rparr>,
      partnerInstitution = Some \<lparr>country = Some countryName\<rparr>\<rparr>"

text \<open>
  The nested objects of the form, and what \<open>changes\<close> holds under their names while
  \<open>compareObjects\<close> runs on the form: nothing yet, or an object.
\<close>

definition sectionNames :: "string list" where
  "sectionNames = [''partnerInstitution'', ''aauContact'', ''partnerContactPerson'']"

definition sectionsAreObjects :: "(string \<times> jsval) list \<Rightarrow> bool" where
  "sectionsAreObjects changes =
     (\<forall>sec \<in> set sectionNames.
        map_of changes sec = None \<or> (\<exists>fs. map_of changes sec = Some (Obj fs)))"

text \<open>The calls of \<open>updatePartnership\<close> among the effects of a handler.\<close>

fun updateCalls :: "effect list \<Rightarrow> (string \<times> (string \<times> jsval) list) list" where
  "updateCalls [] = []"
| "updateCalls (UpdatePartnership ident payload # es) = (ident, payload) # updateCalls es"
| "updateCalls (e # es) = updateCalls es"

text \<open>The notifications among the effects of a handler.\<close>

fun notifications :: "effect list \<Rightarrow> effect list" where
  "notifications [] = []"
| "notifications (ToastError m # es) = ToastError m # notifications es"
| "notifications (ToastInfo m # es) = ToastInfo m # notifications es"
| "notifications (ToastSuccess m # es) = ToastSuccess m # notifications es"
| "notifications (e # es) = notifications es"

section \<open>Properties of the status derivation\<close>

lemma withinThirtyDays_iff:
  "withinThirtyDays (Some e) now \<longleftrightarrow> e - now \<le> 30 * msPerDay"
proof -
  have "real_of_int (e - now) / 86400000 \<le> 30 \<longleftrightarrow> real_of_int (e - now) \<le> 2592000000"
    by (simp add: divide_le_eq)
  also have "\<dots> \<longleftrightarrow> e - now \<le> 2592000000"
    by linarith
  finally show ?thesis
    by (simp add: withinThirtyDays_def daysUntilExpiration_def msPerDay_def)
qed





text \<open>
  With a time filter other than "Weekly", "Monthly" and "Yearly" the clock reading is left
  alone, and an active record expiring 10 days after the clock reading is "expiringSoon",
  one expiring 60 days after it "active".
\<close>

lemma chart_status_unmoved_clock:
  assumes "timeFilter \<noteq> ''Weekly''" "timeFilter \<noteq> ''Monthly''" "timeFilter \<noteq> ''Yearly''"
      and "status p = Some ''Active''"
  shows "expirationDate p = Raw (Some (clock + 10 * msPerDay)) \<Longrightarrow>
           chartDerivedStatus (snd (timeWindow timeFilter clock)) p = ''expiringSoon''"
    and "expirationDate p = Raw (Some (clock + 60 * msPerDay)) \<Longrightarrow>
           chartDerivedStatus (snd (timeWindow timeFilter clock)) p = ''active''"
  using assms
  by (simp_all add: chartDerivedStatus_def timeWindow_def timeValue_def withinThirtyDays_iff
        msPerDay_def)

text \<open>
  The status that \<open>processChartData\<close> gives a record depends on the time filter: the
  same active record, expiring 10 days after the clock reading, is "expiringSoon" under
  "Weekly" and "All Times" and "active" under "Monthly" and "Yearly".
\<close>

lemma chart_status_depends_on_time_filter:
  "map (\<lambda>timeFilter. map snd (processedPartnerships timeFilter 1710504000000
          [partnershipOf ''Active'' (Raw (Some (1710504000000 + 10 * 86400000)))
             (Raw (Some 1710504000000)) ''Central'' ''Kenya'']))
     [''Weekly'', ''Monthly'', ''Yearly'', ''All Times'']
   = [[''expiringSoon''], [''active''], [''active''], [''expiringSoon'']]"
  by code_simp

text \<open>
  C2. With the time filter "Monthly" and the clock at 2024-03-15 12:00 UTC,
  \<open>processChartData\<close> gives an active record that expires 10 days later, on 2024-03-25,
  the status "active": \<open>setMonth\<close> has moved \<open>now\<close> back to 2024-02-15, 39 days before
  the expiration; the record is counted under "active" in \<open>totalData\<close> and in the
  rows of \<open>collegeData\<close>. \<open>processLineData\<close>, whose \<open>now\<close> is never moved, derives
  "expiringSoon" for the same record at the same clock reading.
\<close>

theorem chart_monthly_ten_days_is_active:
  "processedPartnerships ''Monthly'' 1710504000000
     [partnershipOf ''Active'' (Raw (Some (1710504000000 + 10 * 86400000)))
        (Raw (Some 1710504000000)) ''Central'' ''Kenya'']
   = [(partnershipOf ''Active'' (Raw (Some (1710504000000 + 10 * 86400000)))
        (Raw (Some 1710504000000)) ''Central'' ''Kenya'', ''active'')] \<and>
   totalData (processChartData ''Monthly'' ''All Colleges'' 1710504000000
     [partnershipOf ''Active'' (Raw (Some (1710504000000 + 10 * 86400000)))
        (Raw (Some 1710504000000)) ''Central'' ''Kenya'']) ''active'' = Some (Num 1) \<and>
   totalData (processChartData ''Monthly'' ''All Colleges'' 1710504000000
     [partnershipOf ''Active'' (Raw (Some (1710504000000 + 10 * 86400000)))
        (Raw (Some 1710504000000)) ''Central'' ''Kenya'']) ''expiringSoon'' = Some (Num 0) \<and>
   map_of (collegeData (processChartData ''Monthly'' ''All Colleges'' 1710504000000
     [partnershipOf ''Active'' (Raw (Some (1710504000000 + 10 * 86400000)))
        (Raw (Some 1710504000000)) ''Central'' ''Kenya''])) ''Central'' =
     Some \<lparr>active = 1, expiringSoon = 0, expired = 0, prospect = 0\<rparr> \<and>
   lineDerivedStatus 1710504000000
     (partnershipOf ''Active'' (Raw (Some (1710504000000 + 10 * 86400000)))
        (Raw (Some 1710504000000)) ''Central'' ''Kenya'')
   = ''expiringSoon''"
  by code_simp

section \<open>Properties of the record fetcher\<close>

text \<open>
  C7. However \<open>getPartnerships\<close> settles, \<open>fetchPartnerships\<close> ends with the loading
  flag false; when it rejects, the list of partnerships is empty and one error
  notification is shown.
\<close>

theorem fetch_settles_ready:
  "\<not> loading (fst (fetchSettle r s)) \<and>
   (\<forall>m. r = RejectedWith m \<longrightarrow>
      partnerships (fst (fetchSettle r s)) = [] \<and>
      (\<exists>msg. snd (fetchSettle r s) = [ToastError msg]))"
  by (auto simp: fetchSettle_def fetchCatch_def split: fetch_result.splits response.splits)

theorem fetch_settles_ready_witness:
  "\<not> loading (fst (fetchSettle (RejectedWith None) (fst (fetchBegin ''Central''
       \<lparr>partnerships = [], loading = False\<rparr>)))) \<and>
   partnerships (fst (fetchSettle (RejectedWith None) (fst (fetchBegin ''Central''
       \<lparr>partnerships = [], loading = False\<rparr>)))) = [] \<and>
   (\<exists>msg. snd (fetchSettle (RejectedWith None) (fst (fetchBegin ''Central''
       \<lparr>partnerships = [], loading = False\<rparr>))) = [ToastError msg])"
  using fetch_settles_ready [of "RejectedWith None"
      "fst (fetchBegin ''Central'' \<lparr>partnerships = [], loading = False\<rparr>)"]
  by simp

section \<open>Properties of the monthly series\<close>

lemma initialLineData_eq:
  "initialLineData = (\<lambda>c. if c \<in> set colleges then Some emptySeries else None)"
  by (rule ext) (simp add: initialLineData_def colleges_def)

lemma dom_initialLineData: "dom initialLineData = set colleges"
  by (auto simp: initialLineData_eq dom_def)

lemma lineShape_initial: "lineShape initialLineData"
  by (auto simp: lineShape_def initialLineData_eq dom_def twelveSlots_def emptySeries_def
           split: if_splits)


lemma length_incrementAt [simp]: "length (incrementAt xs i) = length xs"
  by (simp add: incrementAt_def)

lemma nth_incrementAt:
  "i < length xs \<Longrightarrow> incrementAt xs i ! j = (if j = i then xs ! i + 1 else xs ! j)"
  by (simp add: incrementAt_def)

lemma twelveSlots_incrementBucket: "twelveSlots e \<Longrightarrow> twelveSlots (incrementBucket e d i)"
  by (simp add: twelveSlots_def incrementBucket_def)

lemma incrementSeries_shape:
  assumes "lineShape ld" "incrementSeries ld c d i = Inr ld'"
  shows "lineShape ld'"
proof (cases "ld c")
  case None
  with assms(2) show ?thesis by (simp add: incrementSeries_def split: if_splits)
next
  case (Some e)
  then have c: "c \<in> dom ld" by auto
  from assms(1) Some have e: "twelveSlots e" by (auto simp: lineShape_def)
  show ?thesis
  proof (cases "d \<in> set bucketNames")
    case True
    with Some assms(2) have ld': "ld' = ld(c \<mapsto> incrementBucket e d i)"
      by (simp add: incrementSeries_def)
    have "dom ld' = dom ld" using c by (auto simp: ld')
    moreover have "\<forall>c' e'. ld' c' = Some e' \<longrightarrow> twelveSlots e'"
      using assms(1) e by (auto simp: ld' lineShape_def twelveSlots_incrementBucket)
    ultimately show ?thesis using assms(1) by (simp add: lineShape_def)
  next
    case False
    with Some assms show ?thesis by (simp add: incrementSeries_def split: if_splits)
  qed
qed

lemma lineStep_cases:
  assumes "lineStep cf now p ld = Inr ld'"
  shows "ld' = ld \<or>
         (\<exists>c d i ld1. incrementSeries ld c d i = Inr ld1 \<and>
                       incrementSeries ld1 ''All Colleges'' d i = Inr ld')"
proof (cases "createdAt p = Missing \<or> \<not> truthy (collegeOf p)")
  case True
  with assms show ?thesis by (simp add: lineStep_def)
next
  case False
  show ?thesis
  proof (cases "monthIndexOf now (timeValue (createdAt p))")
    case None
    with False assms show ?thesis by (simp add: lineStep_def)
  next
    case (Some mi)
    with False assms show ?thesis
      by (simp add: lineStep_def Let_def split: if_splits sum.splits) blast
  qed
qed

lemma lineStep_shape:
  assumes "lineShape ld" "lineStep cf now p ld = Inr ld'"
  shows "lineShape ld'"
  using lineStep_cases [OF assms(2)] assms(1) by (auto dest: incrementSeries_shape)

lemma forEachRecord_shape:
  "lineShape ld \<Longrightarrow> forEachRecord (lineStep cf now) ps ld = Inr ld' \<Longrightarrow> lineShape ld'"
proof (induction ps arbitrary: ld)
  case Nil
  then show ?case by simp
next
  case (Cons p ps)
  show ?case
  proof (cases "lineStep cf now p ld")
    case (Inl e)
    with Cons.prems show ?thesis by simp
  next
    case (Inr ld1)
    with Cons.prems have "lineShape ld1" by (auto dest: lineStep_shape)
    moreover from Inr Cons.prems have "forEachRecord (lineStep cf now) ps ld1 = Inr ld'" by simp
    ultimately show ?thesis by (rule Cons.IH)
  qed
qed

lemma processLineData_shape: "processLineData cf now ps = Inr ld \<Longrightarrow> lineShape ld"
  unfolding processLineData_def by (rule forEachRecord_shape [OF lineShape_initial])

lemma forEachRecord_append:
  "forEachRecord f (ps @ qs) ld =
     (case forEachRecord f ps ld of Inl e \<Rightarrow> Inl e | Inr ld' \<Rightarrow> forEachRecord f qs ld')"
  by (induction ps arbitrary: ld) (auto split: sum.splits)

lemma processLineData_append:
  "processLineData cf now ps = Inr ld \<Longrightarrow>
   processLineData cf now (ps @ qs) = forEachRecord (lineStep cf now) qs ld"
  by (simp add: processLineData_def forEachRecord_append)

lemma incrementSeries_not_owned:
  assumes "ld college = None" "d \<in> set bucketNames \<or> college \<notin> set objectPrototypeNames"
  shows "incrementSeries ld college d i = Inl TypeError"
  using assms by (auto simp: incrementSeries_def)

lemma bucket_cases:
  obtains "d = ''active''" | "d = ''expired''" | "d = ''expiringSoon''" | "d = ''prospect''"
    | "d \<notin> set bucketNames"
  unfolding bucketNames_def by (simp only: list.set insert_iff empty_iff) blast

lemma seriesOf_incrementBucket:
  "seriesOf d' (incrementBucket e d i) =
     (if d' = d \<and> d \<in> set bucketNames then incrementAt (seriesOf d e) i else seriesOf d' e)"
proof (cases d rule: bucket_cases)
  case 1
  then show ?thesis by (simp add: seriesOf_def incrementBucket_def bucketNames_def)
next
  case 2
  then show ?thesis by (simp add: seriesOf_def incrementBucket_def bucketNames_def)
next
  case 3
  then show ?thesis by (simp add: seriesOf_def incrementBucket_def bucketNames_def)
next
  case 4
  then show ?thesis by (simp add: seriesOf_def incrementBucket_def bucketNames_def)
next
  case 5
  then have "incrementBucket e d i = e"
    by (simp add: incrementBucket_def bucketNames_def)
  with 5 show ?thesis by simp
qed

lemma length_seriesOf: "twelveSlots e \<Longrightarrow> d \<in> set bucketNames \<Longrightarrow> length (seriesOf d e) = 12"
  by (auto simp: seriesOf_def twelveSlots_def bucketNames_def)

lemma countAt_incrementSeries:
  assumes "ld c = Some e" "twelveSlots e" "d \<in> set bucketNames" "i < 12"
  shows "\<exists>ld1. incrementSeries ld c d i = Inr ld1 \<and>
           (\<forall>c' d' i'. countAt ld1 c' d' i' =
              countAt ld c' d' i' + (if c' = c \<and> d' = d \<and> i' = i then 1 else 0))"
proof -
  let ?ld1 = "ld(c \<mapsto> incrementBucket e d i)"
  have len: "i < length (seriesOf d e)"
    using assms by (simp add: length_seriesOf)
  have "incrementSeries ld c d i = Inr ?ld1"
    using assms by (simp add: incrementSeries_def)
  moreover have "countAt ?ld1 c' d' i' =
      countAt ld c' d' i' + (if c' = c \<and> d' = d \<and> i' = i then 1 else 0)" for c' d' i'
    using assms(1,3) len
    by (simp add: countAt_def seriesOf_incrementBucket nth_incrementAt)
  ultimately show ?thesis by blast
qed

lemma monthIndex_current:
  "getFullYear c = getFullYear now \<Longrightarrow> getMonth c = getMonth now \<Longrightarrow>
   monthIndexOf now (Some c) = Some 11"
  by (simp add: monthIndexOf_def)

lemma monthIndex_boundary:
  "getFullYear c = getFullYear now - 1 \<Longrightarrow> getMonth c = getMonth now \<Longrightarrow>
   monthIndexOf now (Some c) = Some (- 1)"
  by (simp add: monthIndexOf_def)

text \<open>
  Where the function does not raise, the monthly index is as the specification has it. Let
  the records before \<open>p\<close> be processed without an exception, and let \<open>p\<close> have a valid
  \<open>createdAt\<close> and a college that matches the college filter (or the filter be
  "All Colleges"). If \<open>createdAt\<close> falls in the current calendar month, the college is
  "All Colleges" or one of the colleges of the list, and the derived status is one of the
  four buckets, then \<open>p\<close> adds one at index 11 of the array of its derived status in its
  college's entry and one in the entry of "All Colleges", and changes no other counter. If
  \<open>createdAt\<close> falls in the month 12 calendar months before the current one, the month
  index is -1 and \<open>p\<close> changes nothing.
\<close>

lemma line_data_current_month_and_boundary:
  assumes "processLineData collegeFilter now ps = Inr ld"
      and "createdAt p = Raw (Some c)"
      and "collegeOf p = Some college" and "college \<noteq> []"
      and "collegeFilter = ''All Colleges'' \<or> college = collegeFilter"
  shows "(getFullYear c = getFullYear now \<and> getMonth c = getMonth now \<and>
          college \<in> set colleges \<and> lineDerivedStatus now p \<in> set bucketNames \<longrightarrow>
            (\<exists>ld'. processLineData collegeFilter now (ps @ [p]) = Inr ld' \<and>
               (\<forall>c' d' i'. countAt ld' c' d' i' =
                  countAt ld c' d' i' +
                  (if c' = college \<and> d' = lineDerivedStatus now p \<and> i' = 11 then 1 else 0) +
                  (if c' = ''All Colleges'' \<and> d' = lineDerivedStatus now p \<and> i' = 11
                   then 1 else 0)))) \<and>
         (getFullYear c = getFullYear now - 1 \<and> getMonth c = getMonth now \<longrightarrow>
            monthIndexOf now (Some c) = Some (- 1) \<and>
            processLineData collegeFilter now (ps @ [p]) = Inr ld)"
proof (intro conjI impI)
  assume h: "getFullYear c = getFullYear now \<and> getMonth c = getMonth now \<and>
             college \<in> set colleges \<and> lineDerivedStatus now p \<in> set bucketNames"
  let ?d = "lineDerivedStatus now p"
  from assms(1) have shape: "lineShape ld" by (rule processLineData_shape)
  from h have mi: "monthIndexOf now (Some c) = Some 11" by (simp add: monthIndex_current)
  from shape h have "college \<in> dom ld" by (simp add: lineShape_def)
  then obtain e where e1: "ld college = Some e" by blast
  with shape have e2: "twelveSlots e" by (simp add: lineShape_def)
  note e = e1 e2
  have d: "?d \<in> set bucketNames" using h by simp
  from countAt_incrementSeries [of ld college e ?d 11, OF e d]
  obtain ld1 where ld1: "incrementSeries ld college ?d 11 = Inr ld1"
      "\<And>c' d' i'. countAt ld1 c' d' i' =
         countAt ld c' d' i' + (if c' = college \<and> d' = ?d \<and> i' = 11 then 1 else 0)"
    by auto
  from shape ld1(1) have shape1: "lineShape ld1" by (rule incrementSeries_shape)
  have "''All Colleges'' \<in> set colleges" by (simp add: colleges_def)
  with shape1 have "''All Colleges'' \<in> dom ld1" by (simp add: lineShape_def)
  then obtain a where a1: "ld1 ''All Colleges'' = Some a" by blast
  with shape1 have a2: "twelveSlots a" by (simp add: lineShape_def)
  note a = a1 a2
  from countAt_incrementSeries [of ld1 "''All Colleges''" a ?d 11, OF a d]
  obtain ld2 where ld2: "incrementSeries ld1 ''All Colleges'' ?d 11 = Inr ld2"
      "\<And>c' d' i'. countAt ld2 c' d' i' =
         countAt ld1 c' d' i' + (if c' = ''All Colleges'' \<and> d' = ?d \<and> i' = 11 then 1 else 0)"
    by auto
  have "lineStep collegeFilter now p ld = Inr ld2"
    using assms(2-5) mi ld1(1) ld2(1)
    by (simp add: lineStep_def truthy_def timeValue_def)
  then have "processLineData collegeFilter now (ps @ [p]) = Inr ld2"
    using assms(1) by (simp add: processLineData_append)
  then show "\<exists>ld'. processLineData collegeFilter now (ps @ [p]) = Inr ld' \<and>
               (\<forall>c' d' i'. countAt ld' c' d' i' =
                  countAt ld c' d' i' +
                  (if c' = college \<and> d' = ?d \<and> i' = 11 then 1 else 0) +
                  (if c' = ''All Colleges'' \<and> d' = ?d \<and> i' = 11 then 1 else 0))"
    using ld1(2) ld2(2) by simp
next
  assume h: "getFullYear c = getFullYear now - 1 \<and> getMonth c = getMonth now"
  then show "monthIndexOf now (Some c) = Some (- 1)" by (simp add: monthIndex_boundary)
next
  assume h: "getFullYear c = getFullYear now - 1 \<and> getMonth c = getMonth now"
  then have mi: "monthIndexOf now (Some c) = Some (- 1)" by (simp add: monthIndex_boundary)
  have "lineStep collegeFilter now p ld = Inr ld"
    using assms(2-4) mi by (simp add: lineStep_def truthy_def timeValue_def)
  then show "processLineData collegeFilter now (ps @ [p]) = Inr ld"
    using assms(1) by (simp add: processLineData_append)
qed


lemma line_data_current_month_and_boundary_sample:
  "(\<exists>ld'. processLineData ''All Colleges'' 1710504000000
            [partnershipOf ''Pending'' Missing (Raw (Some 1709380800000)) ''Central''
               ''Kenya''] = Inr ld' \<and>
          countAt ld' ''Central'' ''prospect'' 11 = 1 \<and>
          countAt ld' ''All Colleges'' ''prospect'' 11 = 1 \<and>
          countAt ld' ''Central'' ''prospect'' 10 = 0) \<and>
   monthIndexOf 1710504000000 (Some 1678881600000) = Some (- 1) \<and>
   processLineData ''All Colleges'' 1710504000000
     [partnershipOf ''Pending'' Missing (Raw (Some 1678881600000)) ''Central'' ''Kenya'']
     = Inr initialLineData"
proof -
  let ?now = "1710504000000 :: int"
  let ?p = "partnershipOf ''Pending'' Missing (Raw (Some 1709380800000)) ''Central'' ''Kenya''"
  let ?q = "partnershipOf ''Pending'' Missing (Raw (Some 1678881600000)) ''Central'' ''Kenya''"
  have e: "processLineData ''All Colleges'' ?now [] = Inr initialLineData"
    by (simp add: processLineData_def)
  have p1: "createdAt ?p = Raw (Some 1709380800000)" by (simp add: partnershipOf_def)
  have q1: "createdAt ?q = Raw (Some 1678881600000)" by (simp add: partnershipOf_def)
  have p2: "collegeOf ?p = Some ''Central''" by (simp add: partnershipOf_def collegeOf_def)
  have q2: "collegeOf ?q = Some ''Central''" by (simp add: partnershipOf_def collegeOf_def)
  have ne: "''Central'' \<noteq> []" by simp
  have m: "''All Colleges'' = ''All Colleges'' \<or> ''Central'' = ''All Colleges''" by simp
  have cur: "getFullYear 1709380800000 = getFullYear ?now \<and>
             getMonth 1709380800000 = getMonth ?now \<and> ''Central'' \<in> set colleges \<and>
             lineDerivedStatus ?now ?p \<in> set bucketNames"
    by code_simp
  have old: "getFullYear 1678881600000 = getFullYear ?now - 1 \<and>
             getMonth 1678881600000 = getMonth ?now"
    by code_simp
  have d: "lineDerivedStatus ?now ?p = ''prospect''" by code_simp
  have z: "countAt initialLineData ''Central'' ''prospect'' 11 = 0 \<and>
           countAt initialLineData ''All Colleges'' ''prospect'' 11 = 0 \<and>
           countAt initialLineData ''Central'' ''prospect'' 10 = 0"
    by code_simp
  from line_data_current_month_and_boundary [OF e p1 p2 ne m] cur
  obtain ld' where ld': "processLineData ''All Colleges'' ?now ([] @ [?p]) = Inr ld'"
      "\<And>c' d' i'. countAt ld' c' d' i' =
         countAt initialLineData c' d' i' +
         (if c' = ''Central'' \<and> d' = lineDerivedStatus ?now ?p \<and> i' = 11 then 1 else 0) +
         (if c' = ''All Colleges'' \<and> d' = lineDerivedStatus ?now ?p \<and> i' = 11 then 1 else 0)"
    by blast
  have "countAt ld' ''Central'' ''prospect'' 11 = 1 \<and>
        countAt ld' ''All Colleges'' ''prospect'' 11 = 1 \<and>
        countAt ld' ''Central'' ''prospect'' 10 = 0"
    using z by (simp add: ld'(2) d)
  with ld'(1) have first: "\<exists>ld'. processLineData ''All Colleges'' ?now [?p] = Inr ld' \<and>
      countAt ld' ''Central'' ''prospect'' 11 = 1 \<and>
      countAt ld' ''All Colleges'' ''prospect'' 11 = 1 \<and>
      countAt ld' ''Central'' ''prospect'' 10 = 0"
    by auto
  from line_data_current_month_and_boundary [OF e q1 q2 ne m] old
  have "monthIndexOf ?now (Some 1678881600000) = Some (- 1) \<and>
        processLineData ''All Colleges'' ?now ([] @ [?q]) = Inr initialLineData"
    by blast
  with first show ?thesis by simp
qed

text \<open>
  C3. With the clock at 2024-03-15 12:00 UTC, a record created on 2024-03-02, in the
  current calendar month, whose college is not in the list makes \<open>processLineData\<close>
  raise a TypeError under the filter "All Colleges", where it should add one at index 11
  of the series of its college and of "All Colleges"; so does a record of a listed
  college whose derived status is none of the four buckets. \<open>processChartData\<close> counts
  both records, under "prospect" and under the status itself.
\<close>

theorem line_data_current_month_raises:
  "getFullYear 1709380800000 = getFullYear 1710504000000 \<and>
   getMonth 1709380800000 = getMonth 1710504000000 \<and>
   processLineData ''All Colleges'' 1710504000000
     [partnershipOf ''Pending'' Missing (Raw (Some 1709380800000))
        ''Institute of Ethiopian Studies'' ''Kenya''] = Inl TypeError \<and>
   processLineData ''Central'' 1710504000000
     [partnershipOf ''Suspended'' Missing (Raw (Some 1709380800000)) ''Central'' ''Kenya'']
     = Inl TypeError \<and>
   totalData (processChartData ''Monthly'' ''All Colleges'' 1710504000000
     [partnershipOf ''Pending'' Missing (Raw (Some 1709380800000))
        ''Institute of Ethiopian Studies'' ''Kenya'']) ''prospect'' = Some (Num 1) \<and>
   totalData (processChartData ''Monthly'' ''Central'' 1710504000000
     [partnershipOf ''Suspended'' Missing (Raw (Some 1709380800000)) ''Central'' ''Kenya''])
     ''suspended'' = Some (Num 1)"
proof -
  let ?a = "processLineData ''All Colleges'' 1710504000000
     [partnershipOf ''Pending'' Missing (Raw (Some 1709380800000))
        ''Institute of Ethiopian Studies'' ''Kenya'']"
  let ?b = "processLineData ''Central'' 1710504000000
     [partnershipOf ''Suspended'' Missing (Raw (Some 1709380800000)) ''Central'' ''Kenya'']"
  have "getFullYear 1709380800000 = getFullYear 1710504000000 \<and>
        getMonth 1709380800000 = getMonth 1710504000000"
    by code_simp
  moreover have "isl ?a \<and> projl ?a = TypeError" by code_simp
  then have "?a = Inl TypeError" by (cases ?a) simp_all
  moreover have "isl ?b \<and> projl ?b = TypeError" by code_simp
  then have "?b = Inl TypeError" by (cases ?b) simp_all
  moreover have "totalData (processChartData ''Monthly'' ''All Colleges'' 1710504000000
     [partnershipOf ''Pending'' Missing (Raw (Some 1709380800000))
        ''Institute of Ethiopian Studies'' ''Kenya'']) ''prospect'' = Some (Num 1) \<and>
   totalData (processChartData ''Monthly'' ''Central'' 1710504000000
     [partnershipOf ''Suspended'' Missing (Raw (Some 1709380800000)) ''Central'' ''Kenya''])
     ''suspended'' = Some (Num 1)"
    by code_simp
  ultimately show ?thesis by simp
qed

text \<open>
  C9. Under the filter "All Colleges", a record whose \<open>createdAt\<close> lies in the window of
  the last 12 months and whose college is present but is neither "All Colleges" nor in the
  list of colleges makes \<open>processLineData\<close> raise a TypeError, once the records before it
  have been processed, provided the derived status is one of the four buckets or the
  college is not the name of a member of \<open>Object.prototype\<close>.
\<close>

theorem line_data_raises_outside_colleges:
  assumes "processLineData ''All Colleges'' now ps = Inr ld"
      and "createdAt p \<noteq> Missing"
      and "monthIndexOf now (timeValue (createdAt p)) = Some mi" and "0 \<le> mi" and "mi < 12"
      and "collegeOf p = Some college" and "college \<noteq> []" and "college \<notin> set colleges"
      and "lineDerivedStatus now p \<in> set bucketNames \<or> college \<notin> set objectPrototypeNames"
  shows "processLineData ''All Colleges'' now (ps @ p # qs) = Inl TypeError"
proof -
  from assms(1) have "lineShape ld" by (rule processLineData_shape)
  with assms(8) have "ld college = None" by (auto simp: lineShape_def)
  then have "incrementSeries ld college (lineDerivedStatus now p) (nat mi) = Inl TypeError"
    using assms(9) by (rule incrementSeries_not_owned)
  then have "lineStep ''All Colleges'' now p ld = Inl TypeError"
    using assms(2-7) by (simp add: lineStep_def truthy_def)
  then show ?thesis
    using assms(1) by (simp add: processLineData_append)
qed


theorem line_data_raises_outside_colleges_witness:
  "processLineData ''All Colleges'' 1710504000000
     [partnershipOf ''Pending'' Missing (Raw (Some 1709380800000)) ''Central'' ''Kenya'',
      partnershipOf ''Active'' (Raw (Some 1711368000000)) (Raw (Some 1709380800000))
        ''Institute of Ethiopian Studies'' ''Kenya'',
      partnershipOf ''Pending'' Missing (Raw (Some 1709380800000)) ''Central'' ''Kenya'']
   = Inl TypeError"
proof -
  let ?now = "1710504000000 :: int"
  let ?c = "partnershipOf ''Pending'' Missing (Raw (Some 1709380800000)) ''Central'' ''Kenya''"
  let ?p = "partnershipOf ''Active'' (Raw (Some 1711368000000)) (Raw (Some 1709380800000))
              ''Institute of Ethiopian Studies'' ''Kenya''"
  have "\<not> isl (processLineData ''All Colleges'' ?now [?c])" by code_simp
  then obtain ld where ld: "processLineData ''All Colleges'' ?now [?c] = Inr ld"
    by (cases "processLineData ''All Colleges'' ?now [?c]") simp_all
  have p1: "createdAt ?p \<noteq> Missing" by (simp add: partnershipOf_def)
  have p2: "monthIndexOf ?now (timeValue (createdAt ?p)) = Some 11" by code_simp
  have p3: "collegeOf ?p = Some ''Institute of Ethiopian Studies''"
    by (simp add: partnershipOf_def collegeOf_def)
  have p4: "''Institute of Ethiopian Studies'' \<noteq> []" by simp
  have p5: "''Institute of Ethiopian Studies'' \<notin> set colleges" by code_simp
  have p6: "lineDerivedStatus ?now ?p \<in> set bucketNames \<or>
            ''Institute of Ethiopian Studies'' \<notin> set objectPrototypeNames"
    by code_simp
  from line_data_raises_outside_colleges [OF ld p1 p2 _ _ p3 p4 p5 p6, of "[?c]"]
  show ?thesis by simp
qed


text \<open>
  The other direction: when every record with a college has it from the list and a derived
  status among the four buckets, \<open>processLineData\<close> returns.
\<close>

lemma lineStep_returns:
  assumes "lineShape ld"
      and "truthy (collegeOf p) \<longrightarrow> collegeOf p \<in> Some ` set colleges"
      and "lineDerivedStatus now p \<in> set bucketNames"
  shows "\<exists>ld'. lineStep cf now p ld = Inr ld' \<and> lineShape ld'"
proof -
  have inc: "\<exists>ld'. incrementSeries l c (lineDerivedStatus now p) (nat mi) = Inr ld' \<and> lineShape ld'"
    if "lineShape l" "c \<in> set colleges" for l c mi
  proof -
    from that have "c \<in> dom l" by (simp add: lineShape_def)
    then obtain e where "l c = Some e" by blast
    then have "incrementSeries l c (lineDerivedStatus now p) (nat mi) =
        Inr (l(c \<mapsto> incrementBucket e (lineDerivedStatus now p) (nat mi)))"
      using assms(3) by (simp add: incrementSeries_def)
    with that(1) show ?thesis by (auto dest: incrementSeries_shape)
  qed
  show ?thesis
  proof (cases "createdAt p = Missing \<or> \<not> truthy (collegeOf p)")
    case True
    with assms(1) show ?thesis by (simp add: lineStep_def)
  next
    case False
    with assms(2) obtain c where c: "collegeOf p = Some c" "c \<in> set colleges" by auto
    have all: "''All Colleges'' \<in> set colleges" by (simp add: colleges_def)
    show ?thesis
    proof (cases "monthIndexOf now (timeValue (createdAt p))")
      case None
      with False assms(1) show ?thesis by (simp add: lineStep_def)
    next
      case (Some mi)
      from inc [OF assms(1) c(2), of mi] obtain ld1
        where ld1: "incrementSeries ld c (lineDerivedStatus now p) (nat mi) = Inr ld1"
          "lineShape ld1" by blast
      from inc [OF ld1(2) all, of mi] obtain ld2
        where ld2: "incrementSeries ld1 ''All Colleges'' (lineDerivedStatus now p) (nat mi)
                      = Inr ld2" "lineShape ld2" by blast
      from False Some c ld1 ld2 assms(1) show ?thesis
        by (simp add: lineStep_def Let_def)
    qed
  qed
qed

lemma processLineData_returns:
  assumes "\<forall>p \<in> set ps. (truthy (collegeOf p) \<longrightarrow> collegeOf p \<in> Some ` set colleges) \<and>
                         lineDerivedStatus now p \<in> set bucketNames"
  shows "\<exists>ld. processLineData cf now ps = Inr ld"
proof -
  have "\<exists>ld'. forEachRecord (lineStep cf now) ps ld = Inr ld'" if "lineShape ld" for ld
    using assms that
  proof (induction ps arbitrary: ld)
    case Nil
    then show ?case by simp
  next
    case (Cons p ps)
    from Cons.prems obtain ld1 where "lineStep cf now p ld = Inr ld1" "lineShape ld1"
      using lineStep_returns [of ld p now cf] by auto
    with Cons show ?case by simp
  qed
  then show ?thesis by (simp add: processLineData_def lineShape_initial)
qed

section \<open>Properties of the country heatmap\<close>

lemma heatmapFilter_needs_createdAt:
  "createdAt p = Missing \<Longrightarrow> \<not> heatmapFilter collegeFilter startDate p"
  by (simp add: heatmapFilter_def createdSince_def)

text \<open>
  C4, as amended. A record without \<open>createdAt\<close> does not pass the filter of
  \<open>processHeatmapData\<close>, whatever the time filter and the college filter: the counts
  are those of the list without the record.
\<close>

theorem heatmap_excludes_records_without_createdAt:
  "createdAt p = Missing \<Longrightarrow>
   processHeatmapData timeFilter collegeFilter clock (ps @ p # qs) =
   processHeatmapData timeFilter collegeFilter clock (ps @ qs)"
  by (simp add: processHeatmapData_def split_beta heatmapFilter_needs_createdAt)

theorem heatmap_excludes_records_without_createdAt_witness:
  "processHeatmapData ''All Times'' ''All Colleges'' 1710504000000
     ([partnershipOf ''Active'' Missing (Raw (Some 1709380800000)) ''Central'' ''Kenya''] @
      partnershipOf ''Active'' Missing Missing ''Central'' ''Ethiopia'' # []) =
   processHeatmapData ''All Times'' ''All Colleges'' 1710504000000
     ([partnershipOf ''Active'' Missing (Raw (Some 1709380800000)) ''Central'' ''Kenya''] @ [])"
proof -
  have "createdAt (partnershipOf ''Active'' Missing Missing ''Central'' ''Ethiopia'') = Missing"
    by (simp add: partnershipOf_def)
  then show ?thesis by (rule heatmap_excludes_records_without_createdAt)
qed

text \<open>
  The unamended statement, that such a record is still counted, fails: a record without
  \<open>createdAt\<close> whose college passes the college filter and whose country normalizes to
  "Ethiopia" leaves "Ethiopia" without a count, where the same record with a
  \<open>createdAt\<close> gives it the count 1.
\<close>

theorem heatmap_counts_record_without_createdAt_counterexample:
  "normalizeCountryName (Some ''Ethiopia'') = Inr ''Ethiopia'' \<and>
   countryCount (processHeatmapData ''All Times'' ''All Colleges'' 1710504000000
     [partnershipOf ''Active'' Missing Missing ''Central'' ''Ethiopia'']) ''Ethiopia'' = None \<and>
   countryCount (processHeatmapData ''All Times'' ''All Colleges'' 1710504000000
     [partnershipOf ''Active'' Missing (Raw (Some 1709380800000)) ''Central'' ''Ethiopia''])
     ''Ethiopia'' = Some (Num 1)"
  by code_simp

section \<open>Properties of the edit form\<close>

lemma diff_of_changed_region:
  "new \<noteq> v ''region'' \<Longrightarrow>
   getChangedFields (formObject (v(''region'' := new))) (Obj (formObject v)) =
     Inr [(''region'', Str new)]"
  by (simp add: getChangedFields_def formObject_def getProp_def recordChange_def)

text \<open>
  C5. When the form differs from the loaded record in the top-level field \<open>region\<close>
  only, \<open>getChangedFields\<close> returns the object with the one key \<open>region\<close> and the new
  value, and \<open>handleSubmit\<close> calls \<open>updatePartnership\<close> once, with the identifier of the
  record and that object.
\<close>

theorem changed_region_is_the_payload:
  assumes "new \<noteq> v ''region''"
      and "formData s = formObject (v(''region'' := new))"
      and "originalData s = Obj (formObject v)"
  shows "getChangedFields (formData s) (originalData s) = Inr [(''region'', Str new)] \<and>
         updateCalls (snd (handleSubmit toastInfo ident updateResult s)) =
           [(ident, [(''region'', Str new)])]"
  using assms diff_of_changed_region [of new v]
  by (simp add: handleSubmit_def Let_def split: option.splits)

theorem changed_region_is_the_payload_witness:
  "getChangedFields (formObject ((\<lambda>_. ''x'')(''region'' := ''East Africa'')))
     (Obj (formObject (\<lambda>_. ''x''))) = Inr [(''region'', Str ''East Africa'')] \<and>
   updateCalls (snd (handleSubmit True ''42'' None
     \<lparr>formLoading = False, submitting = False, error = None,
      originalData = Obj (formObject (\<lambda>_. ''x'')),
      formData = formObject ((\<lambda>_. ''x'')(''region'' := ''East Africa''))\<rparr>)) =
     [(''42'', [(''region'', Str ''East Africa'')])]"
  using changed_region_is_the_payload [of "''East Africa''" "\<lambda>_. ''x''"
      "\<lparr>formLoading = False, submitting = False, error = None,
        originalData = Obj (formObject (\<lambda>_. ''x'')),
        formData = formObject ((\<lambda>_. ''x'')(''region'' := ''East Africa''))\<rparr>"
      True "''42''" None]
  by simp

text \<open>
  Whether or not \<open>toast.info\<close> exists, a submission without changes makes no update
  call, leaves the form data, the loaded record and the loading flag as they were and ends
  with the submitting flag false.
\<close>

lemma submit_without_changes_makes_no_call:
  assumes "getChangedFields (formData s) (originalData s) = Inr []"
  shows "updateCalls (snd (handleSubmit toastInfo ident updateResult s)) = [] \<and>
         formData (fst (handleSubmit toastInfo ident updateResult s)) = formData s \<and>
         originalData (fst (handleSubmit toastInfo ident updateResult s)) = originalData s \<and>
         formLoading (fst (handleSubmit toastInfo ident updateResult s)) = formLoading s \<and>
         \<not> submitting (fst (handleSubmit toastInfo ident updateResult s))"
  using assms by (simp add: handleSubmit_def Let_def)

text \<open>
  With the library as it is, without \<open>toast.info\<close>, every submission without changes
  ends in the \<open>catch\<close> block.
\<close>

lemma submit_without_changes_ends_in_catch:
  assumes "getChangedFields (formData s) (originalData s) = Inr []"
  shows "snd (handleSubmit False ident updateResult s) =
           [ToastError ''Failed to update partnership''] \<and>
         error (fst (handleSubmit False ident updateResult s)) = Some (Raised TypeError)"
  using assms by (simp add: handleSubmit_def Let_def)

text \<open>
  C6. A submission of the form as it was loaded, where \<open>getChangedFields\<close> returns the
  empty object, makes no update call, but it is not the silent return that the handler's
  comment announces: the call \<open>toast.info\<close> raises a TypeError, the handler stores it as
  the error and shows the notification "Failed to update partnership".
\<close>

theorem submit_without_changes_raises:
  "getChangedFields (formObject (\<lambda>_. ''x'')) (Obj (formObject (\<lambda>_. ''x''))) = Inr [] \<and>
   updateCalls (snd (handleSubmit False ''42'' None
      \<lparr>formLoading = False, submitting = False, error = None,
       originalData = Obj (formObject (\<lambda>_. ''x'')), formData = formObject (\<lambda>_. ''x'')\<rparr>)) = [] \<and>
   snd (handleSubmit False ''42'' None
      \<lparr>formLoading = False, submitting = False, error = None,
       originalData = Obj (formObject (\<lambda>_. ''x'')), formData = formObject (\<lambda>_. ''x'')\<rparr>) =
     [ToastError ''Failed to update partnership''] \<and>
   error (fst (handleSubmit False ''42'' None
      \<lparr>formLoading = False, submitting = False, error = None,
       originalData = Obj (formObject (\<lambda>_. ''x'')), formData = formObject (\<lambda>_. ''x'')\<rparr>)) =
     Some (Raised TypeError)"
  by code_simp


lemma getChangedFields_null:
  assumes "fd \<noteq> []"
  shows "getChangedFields fd Null = Inl TypeError"
proof (cases fd)
  case Nil
  with assms show ?thesis by simp
next
  case (Cons kv rest)
  obtain k x where "kv = (k, x)" by (cases kv)
  with Cons show ?thesis
    by (cases x) (simp_all add: getChangedFields_def getProp_def)
qed

lemma map_of_setOwn:
  "map_of (setOwn ch k v) k' = (if k' = k then Some v else map_of ch k')"
  by (induction ch) auto

lemma splitOn_no_dot: "c \<notin> set b \<Longrightarrow> splitOn c b = [b]"
  by (induction b) auto

lemma splitOn_first: "c \<notin> set a \<Longrightarrow> splitOn c (a @ c # b) = a # splitOn c b"
  by (induction a) auto

lemma sectionName_plain:
  "sec \<in> set sectionNames \<Longrightarrow>
   CHR ''.'' \<notin> set sec \<and> sec \<notin> set objectPrototypeNames \<and> sec \<noteq> []"
  by (auto simp: sectionNames_def objectPrototypeNames_def inheritedFunctionNames_def)

lemma recordChange_top:
  "CHR ''.'' \<notin> set k \<Longrightarrow> k \<noteq> ''__proto__'' \<Longrightarrow> recordChange ch k k v = Inr (setOwn ch k v)"
  by (simp add: recordChange_def)

lemma recordChange_section:
  assumes "sec \<in> set sectionNames" "CHR ''.'' \<notin> set f" "f \<noteq> ''__proto__''"
      and "sectionsAreObjects ch"
  shows "\<exists>fs. recordChange ch (sec @ ''.'' @ f) f v = Inr (setOwn ch sec (Obj fs))"
proof -
  from sectionName_plain [OF assms(1)]
  have sec: "CHR ''.'' \<notin> set sec" "sec \<notin> set objectPrototypeNames" by simp_all
  have split: "splitOn CHR ''.'' (sec @ ''.'' @ f) = [sec, f]"
    using sec(1) assms(2) by (simp add: splitOn_first splitOn_no_dot)
  from assms(1,4) consider "map_of ch sec = None" | fs where "map_of ch sec = Some (Obj fs)"
    by (auto simp: sectionsAreObjects_def)
  then show ?thesis
  proof cases
    case 1
    with split sec(2) assms(3) show ?thesis by (auto simp: recordChange_def)
  next
    case 2
    with split assms(3) show ?thesis by (auto simp: recordChange_def)
  qed
qed

lemma sectionsAreObjects_setOwn:
  "sectionsAreObjects ch \<Longrightarrow> k \<notin> set sectionNames \<or> (\<exists>fs. v = Obj fs) \<Longrightarrow>
   sectionsAreObjects (setOwn ch k v)"
  by (auto simp: sectionsAreObjects_def map_of_setOwn)

lemma compareObjects_top_leaves:
  assumes "\<forall>(k, x) \<in> set kvs. \<exists>a b. x = Str a \<and> map_of o2 k = Some (Str b) \<and>
             CHR ''.'' \<notin> set k \<and> k \<noteq> ''__proto__'' \<and> k \<notin> set sectionNames"
      and "sectionsAreObjects ch"
  shows "\<exists>ch'. compareObjects kvs (Obj o2) [] ch = Inr ch' \<and> sectionsAreObjects ch'"
  using assms
proof (induction kvs arbitrary: ch)
  case Nil
  then show ?case by simp
next
  case (Cons kv kvs)
  then obtain k a b where kv: "kv = (k, Str a)" "map_of o2 k = Some (Str b)"
      "CHR ''.'' \<notin> set k" "k \<noteq> ''__proto__''" "k \<notin> set sectionNames"
    by (cases kv) auto
  from Cons.prems have rest: "\<forall>(k, x) \<in> set kvs. \<exists>a b. x = Str a \<and> map_of o2 k = Some (Str b) \<and>
             CHR ''.'' \<notin> set k \<and> k \<noteq> ''__proto__'' \<and> k \<notin> set sectionNames"
    by simp
  show ?case
  proof (cases "a = b")
    case True
    with kv Cons.IH [OF rest Cons.prems(2)] show ?thesis
      by (simp add: getProp_def)
  next
    case False
    have "sectionsAreObjects (setOwn ch k (Str a))"
      using Cons.prems(2) kv(5) by (simp add: sectionsAreObjects_setOwn)
    from Cons.IH [OF rest this] False kv show ?thesis
      by (simp add: getProp_def recordChange_top)
  qed
qed

lemma compareObjects_section_leaves:
  assumes "sec \<in> set sectionNames"
      and "\<forall>(k, x) \<in> set kvs. \<exists>a b. x = Str a \<and> map_of o2 k = Some (Str b) \<and>
             CHR ''.'' \<notin> set k \<and> k \<noteq> ''__proto__''"
      and "sectionsAreObjects ch"
  shows "\<exists>ch'. compareObjects kvs (Obj o2) sec ch = Inr ch' \<and> sectionsAreObjects ch'"
  using assms(2,3)
proof (induction kvs arbitrary: ch)
  case Nil
  then show ?case by simp
next
  case (Cons kv kvs)
  then obtain k a b where kv: "kv = (k, Str a)" "map_of o2 k = Some (Str b)"
      "CHR ''.'' \<notin> set k" "k \<noteq> ''__proto__''"
    by (cases kv) auto
  from Cons.prems have rest: "\<forall>(k, x) \<in> set kvs. \<exists>a b. x = Str a \<and> map_of o2 k = Some (Str b) \<and>
             CHR ''.'' \<notin> set k \<and> k \<noteq> ''__proto__''"
    by simp
  from sectionName_plain [OF assms(1)] have ne: "sec \<noteq> []" by simp
  show ?case
  proof (cases "a = b")
    case True
    with kv Cons.IH [OF rest Cons.prems(2)] show ?thesis
      by (simp add: getProp_def)
  next
    case False
    from recordChange_section [OF assms(1) kv(3,4) Cons.prems(2), of "Str a"]
    obtain fs where fs: "recordChange ch (sec @ ''.'' @ k) k (Str a) = Inr (setOwn ch sec (Obj fs))"
      by blast
    have "sectionsAreObjects (setOwn ch sec (Obj fs))"
      using Cons.prems(2) by (simp add: sectionsAreObjects_setOwn)
    from Cons.IH [OF rest this] False kv fs ne show ?thesis
      by (simp add: getProp_def)
  qed
qed

lemma compareObjects_append:
  "compareObjects (xs @ ys) obj2 path ch =
     (case compareObjects xs obj2 path ch of
        Inl e \<Rightarrow> Inl e
      | Inr ch' \<Rightarrow> compareObjects ys obj2 path ch')"
  by (induction xs obj2 path ch rule: compareObjects.induct) (auto split: sum.splits)

lemma compareObjects_section:
  assumes "sec \<in> set sectionNames" "map_of o2 sec = Some (Obj w2)"
      and "\<forall>(k, x) \<in> set sub. \<exists>a b. x = Str a \<and> map_of w2 k = Some (Str b) \<and>
             CHR ''.'' \<notin> set k \<and> k \<noteq> ''__proto__''"
      and "sectionsAreObjects ch"
  shows "\<exists>ch'. compareObjects [(sec, Obj sub)] (Obj o2) [] ch = Inr ch' \<and> sectionsAreObjects ch'"
proof -
  from compareObjects_section_leaves [OF assms(1,3,4)]
  obtain ch' where "compareObjects sub (Obj w2) sec ch = Inr ch'" "sectionsAreObjects ch'"
    by blast
  with assms(2) show ?thesis by (simp add: getProp_def)
qed


lemma formObject_split:
  "formObject v =
     [(''name'', Str (v ''name'')), (''type'', Str (v ''type'')),
      (''signedDate'', Str (v ''signedDate'')), (''endDate'', Str (v ''endDate'')),
      (''region'', Str (v ''region'')), (''country'', Str (v ''country'')),
      (''college'', Str (v ''college'')), (''status'', Str (v ''status'')),
      (''description'', Str (v ''description''))] @
     [(''partnerInstitution'',
         Obj [(''name'', Str (v ''partnerInstitution.name'')),
              (''website'', Str (v ''partnerInstitution.website'')),
              (''address'', Str (v ''partnerInstitution.address'')),
              (''country'', Str (v ''partnerInstitution.country''))])] @
     [(''aauContact'',
         Obj [(''name'', Str (v ''aauContact.name'')),
              (''email'', Str (v ''aauContact.email'')),
              (''phone'', Str (v ''aauContact.phone'')),
              (''title'', Str (v ''aauContact.title'')),
              (''address'', Str (v ''aauContact.address''))])] @
     [(''partnerContactPerson'',
         Obj [(''name'', Str (v ''partnerContactPerson.name'')),
              (''email'', Str (v ''partnerContactPerson.email'')),
              (''phone'', Str (v ''partnerContactPerson.phone'')),
              (''title'', Str (v ''partnerContactPerson.title'')),
              (''address'', Str (v ''partnerContactPerson.address''))])] @
     [(''potentialStartDate'', Str (v ''potentialStartDate''))]"
  by (simp add: formObject_def)

lemma getChangedFields_loaded:
  "\<exists>ch. getChangedFields (formObject v) (Obj (formObject w)) = Inr ch"
proof -
  let ?o2 = "formObject w"
  have start: "sectionsAreObjects []" by (simp add: sectionsAreObjects_def)
  from compareObjects_top_leaves [OF _ start, of
      "[(''name'', Str (v ''name'')), (''type'', Str (v ''type'')),
        (''signedDate'', Str (v ''signedDate'')), (''endDate'', Str (v ''endDate'')),
        (''region'', Str (v ''region'')), (''country'', Str (v ''country'')),
        (''college'', Str (v ''college'')), (''status'', Str (v ''status'')),
        (''description'', Str (v ''description''))]" ?o2]
  obtain c1 where c1: "compareObjects
      [(''name'', Str (v ''name'')), (''type'', Str (v ''type'')),
        (''signedDate'', Str (v ''signedDate'')), (''endDate'', Str (v ''endDate'')),
        (''region'', Str (v ''region'')), (''country'', Str (v ''country'')),
        (''college'', Str (v ''college'')), (''status'', Str (v ''status'')),
        (''description'', Str (v ''description''))] (Obj ?o2) [] [] = Inr c1"
      "sectionsAreObjects c1"
    by (auto simp: formObject_def sectionNames_def)
  from compareObjects_section [OF _ _ _ c1(2), of "''partnerInstitution''" ?o2
      "[(''name'', Str (w ''partnerInstitution.name'')),
        (''website'', Str (w ''partnerInstitution.website'')),
        (''address'', Str (w ''partnerInstitution.address'')),
        (''country'', Str (w ''partnerInstitution.country''))]"
      "[(''name'', Str (v ''partnerInstitution.name'')),
        (''website'', Str (v ''partnerInstitution.website'')),
        (''address'', Str (v ''partnerInstitution.address'')),
        (''country'', Str (v ''partnerInstitution.country''))]"]
  obtain c2 where c2: "compareObjects
      [(''partnerInstitution'',
         Obj [(''name'', Str (v ''partnerInstitution.name'')),
              (''website'', Str (v ''partnerInstitution.website'')),
              (''address'', Str (v ''partnerInstitution.address'')),
              (''country'', Str (v ''partnerInstitution.country''))])] (Obj ?o2) [] c1 = Inr c2"
      "sectionsAreObjects c2"
    by (auto simp: formObject_def sectionNames_def)
  from compareObjects_section [OF _ _ _ c2(2), of "''aauContact''" ?o2
      "[(''name'', Str (w ''aauContact.name'')),
        (''email'', Str (w ''aauContact.email'')),
        (''phone'', Str (w ''aauContact.phone'')),
        (''title'', Str (w ''aauContact.title'')),
        (''address'', Str (w ''aauContact.address''))]"
      "[(''name'', Str (v ''aauContact.name'')),
        (''email'', Str (v ''aauContact.email'')),
        (''phone'', Str (v ''aauContact.phone'')),
        (''title'', Str (v ''aauContact.title'')),
        (''address'', Str (v ''aauContact.address''))]"]
  obtain c3 where c3: "compareObjects
      [(''aauContact'',
         Obj [(''name'', Str (v ''aauContact.name'')),
              (''email'', Str (v ''aauContact.email'')),
              (''phone'', Str (v ''aauContact.phone'')),
              (''title'', Str (v ''aauContact.title'')),
              (''address'', Str (v ''aauContact.address''))])] (Obj ?o2) [] c2 = Inr c3"
      "sectionsAreObjects c3"
    by (auto simp: formObject_def sectionNames_def)
  from compareObjects_section [OF _ _ _ c3(2), of "''partnerContactPerson''" ?o2
      "[(''name'', Str (w ''partnerContactPerson.name'')),
        (''email'', Str (w ''partnerContactPerson.email'')),
        (''phone'', Str (w ''partnerContactPerson.phone'')),
        (''title'', Str (w ''partnerContactPerson.title'')),
        (''address'', Str (w ''partnerContactPerson.address''))]"
      "[(''name'', Str (v ''partnerContactPerson.name'')),
        (''email'', Str (v ''partnerContactPerson.email'')),
        (''phone'', Str (v ''partnerContactPerson.phone'')),
        (''title'', Str (v ''partnerContactPerson.title'')),
        (''address'', Str (v ''partnerContactPerson.address''))]"]
  obtain c4 where c4: "compareObjects
      [(''partnerContactPerson'',
         Obj [(''name'', Str (v ''partnerContactPerson.name'')),
              (''email'', Str (v ''partnerContactPerson.email'')),
              (''phone'', Str (v ''partnerContactPerson.phone'')),
              (''title'', Str (v ''partnerContactPerson.title'')),
              (''address'', Str (v ''partnerContactPerson.address''))])] (Obj ?o2) [] c3 = Inr c4"
      "sectionsAreObjects c4"
    by (auto simp: formObject_def sectionNames_def)
  from compareObjects_top_leaves [OF _ c4(2), of
      "[(''potentialStartDate'', Str (v ''potentialStartDate''))]" ?o2]
  obtain c5 where c5: "compareObjects
      [(''potentialStartDate'', Str (v ''potentialStartDate''))] (Obj ?o2) [] c4 = Inr c5"
    by (auto simp: formObject_def sectionNames_def)
  have "getChangedFields (formObject v) (Obj ?o2) = Inr c5"
    unfolding getChangedFields_def
    by (subst formObject_split) (simp only: compareObjects_append c1 c2 c3 c4 c5 sum.case)
  then show ?thesis by blast
qed

text \<open>
  C10. When the load fails, the form is rendered with \<open>originalData\<close> still \<open>null\<close>, and
  \<open>getChangedFields\<close> then raises a TypeError whatever the form holds: a submission in
  that state makes no update call and ends in the error state. With a loaded record
  \<open>getChangedFields\<close> returns a diff for every content of the form.
\<close>

theorem getChangedFields_requires_loaded_record:
  "rendersForm (fst (fetchPartnership (LoadFailed e) initialEditState)) \<and>
   originalData (fst (fetchPartnership (LoadFailed e) initialEditState)) = Null \<and>
   getChangedFields (formObject v) Null = Inl TypeError \<and>
   updateCalls (snd (handleSubmit toastInfo ident updateResult
     ((fst (fetchPartnership (LoadFailed e) initialEditState))\<lparr>formData := formObject v\<rparr>))) = [] \<and>
   error (fst (handleSubmit toastInfo ident updateResult
     ((fst (fetchPartnership (LoadFailed e) initialEditState))\<lparr>formData := formObject v\<rparr>))) =
     Some (Raised TypeError) \<and>
   (\<exists>ch. getChangedFields (formObject v) (Obj (formObject w)) = Inr ch)"
proof -
  have ne: "formObject v \<noteq> []" by (simp add: formObject_def)
  have null: "getChangedFields (formObject v) Null = Inl TypeError"
    using ne by (rule getChangedFields_null)
  show ?thesis
    using null getChangedFields_loaded [of v w]
    by (simp add: fetchPartnership_def initialEditState_def rendersForm_def handleSubmit_def
          Let_def)
qed

section \<open>Properties of the country normalization\<close>

text \<open>
  Where the normalization returns, it is idempotent: a mapped name is one of seven fixed
  points, "Unknown" is a fixed point, and an unmapped name is returned with its first
  letter in upper case, which changes neither the key of the lookup nor the result of a
  second pass.
\<close>

lemma of_char_toUpperChar:
  assumes "97 \<le> (of_char c :: nat)" "(of_char c :: nat) \<le> 122"
  shows "(of_char (toUpperChar c) :: nat) = of_char c - 32"
proof -
  have "(of_char c :: nat) - 32 < 256" using assms by linarith
  then have "(of_char (char_of (of_char c - 32 :: nat)) :: nat) = of_char c - 32"
    by (simp add: of_char_of)
  with assms show ?thesis by (simp add: toUpperChar_def)
qed

lemma toUpperChar_other:
  "\<not> (97 \<le> (of_char c :: nat) \<and> (of_char c :: nat) \<le> 122) \<Longrightarrow> toUpperChar c = c"
  by (auto simp: toUpperChar_def Let_def)

lemma toLowerChar_toUpperChar: "toLowerChar (toUpperChar c) = toLowerChar c"
proof (cases "97 \<le> (of_char c :: nat) \<and> (of_char c :: nat) \<le> 122")
  case True
  then have n: "(of_char (toUpperChar c) :: nat) = of_char c - 32"
    by (simp add: of_char_toUpperChar)
  from True have r: "65 \<le> (of_char c :: nat) - 32" "(of_char c :: nat) - 32 \<le> 90"
      "(of_char c :: nat) - 32 + 32 = of_char c"
    by linarith+
  have "toLowerChar (toUpperChar c) = char_of (of_char c - 32 + 32 :: nat)"
    using r(1,2) by (simp add: toLowerChar_def n Let_def)
  also have "\<dots> = c" by (simp only: r(3) char_of_char)
  also have "c = toLowerChar c" using True by (simp add: toLowerChar_def)
  finally show ?thesis .
next
  case False
  then show ?thesis by (simp add: toUpperChar_other)
qed

lemma toUpperChar_idem: "toUpperChar (toUpperChar c) = toUpperChar c"
proof (cases "97 \<le> (of_char c :: nat) \<and> (of_char c :: nat) \<le> 122")
  case True
  then have n: "(of_char (toUpperChar c) :: nat) = of_char c - 32"
    by (simp add: of_char_toUpperChar)
  from True have x: "\<not> (97 \<le> (of_char c :: nat) - 32 \<and> (of_char c :: nat) - 32 \<le> 122)"
    by linarith
  have "\<not> (97 \<le> (of_char (toUpperChar c) :: nat) \<and>
             (of_char (toUpperChar c) :: nat) \<le> 122)"
    unfolding n by (rule x)
  then show ?thesis by (rule toUpperChar_other)
next
  case False
  then show ?thesis by (simp add: toUpperChar_other)
qed

lemma isSpace_toUpperChar: "isSpace (toUpperChar c) = isSpace c"
proof (cases "97 \<le> (of_char c :: nat) \<and> (of_char c :: nat) \<le> 122")
  case True
  then have n: "(of_char (toUpperChar c) :: nat) = of_char c - 32"
    by (simp add: of_char_toUpperChar)
  from True have "\<not> ((9 \<le> (of_char c :: nat) - 32 \<and> (of_char c :: nat) - 32 \<le> 13) \<or>
                      (of_char c :: nat) - 32 = 32)"
    by linarith
  moreover from True have "\<not> ((9 \<le> (of_char c :: nat) \<and> (of_char c :: nat) \<le> 13) \<or>
                      (of_char c :: nat) = 32)"
    by linarith
  ultimately show ?thesis by (simp only: isSpace_def Let_def n)
next
  case False
  then show ?thesis by (simp add: toUpperChar_other)
qed

lemma isSpace_fixed: "isSpace c \<Longrightarrow> toUpperChar c = c"
  by (rule toUpperChar_other) (auto simp: isSpace_def Let_def)

lemma trim_nonspace_head:
  "\<not> isSpace c \<Longrightarrow> trim (c # cs) = c # rev (dropWhile isSpace (rev cs))"
  by (simp add: trim_def dropWhile_append)

lemma capitalize_idem: "capitalize (capitalize s) = capitalize s"
  by (cases s) (simp_all add: toUpperChar_idem)

lemma key_of_capitalize: "toLowerCase (trim (capitalize s)) = toLowerCase (trim s)"
proof (cases s)
  case Nil
  then show ?thesis by simp
next
  case (Cons c cs)
  show ?thesis
  proof (cases "isSpace c")
    case True
    with Cons show ?thesis by (simp add: isSpace_fixed)
  next
    case False
    then have "\<not> isSpace (toUpperChar c)" by (simp add: isSpace_toUpperChar)
    with False Cons show ?thesis
      by (simp add: trim_nonspace_head toLowerCase_def toLowerChar_toUpperChar)
  qed
qed

lemma mapped_names_fixed:
  "\<forall>m \<in> set (map snd countryMap).
     m \<noteq> [] \<and> normalizeCountryName (Some (capitalize m)) = Inr (capitalize m)"
  by code_simp

lemma unknown_fixed:
  "normalizeCountryName None = Inr ''Unknown'' \<and>
   normalizeCountryName (Some []) = Inr ''Unknown'' \<and>
   normalizeCountryName (Some ''Unknown'') = Inr ''Unknown''"
  by code_simp

lemma normalizeCountryName_idempotent_where_it_returns:
  assumes "normalizeCountryName name = Inr r"
  shows "normalizeCountryName (Some r) = Inr r"
proof (cases "truthy name")
  case False
  with assms have "r = ''Unknown''" by (simp add: normalizeCountryName_def)
  with unknown_fixed show ?thesis by simp
next
  case True
  then obtain n where n: "name = Some n" "n \<noteq> []"
    by (auto simp: truthy_def split: option.splits)
  show ?thesis
  proof (cases "map_of countryMap (toLowerCase (trim n))")
    case (Some m)
    then have "m \<in> set (map snd countryMap)"
      by (metis map_of_SomeD image_eqI set_map snd_conv)
    with mapped_names_fixed have m: "m \<noteq> []"
        "normalizeCountryName (Some (capitalize m)) = Inr (capitalize m)" by auto
    from assms n True Some m(1) have "r = capitalize m"
      by (simp add: normalizeCountryName_def)
    with m(2) show ?thesis by simp
  next
    case None
    with assms n True have r: "r = capitalize n"
        and np: "toLowerCase (trim n) \<notin> set objectPrototypeNames"
      by (auto simp: normalizeCountryName_def Let_def split: if_splits)
    from n(2) have "capitalize n \<noteq> []" by (cases n) simp_all
    then have "truthy (Some (capitalize n))" by (simp add: truthy_def)
    then show ?thesis
      using None np by (simp add: r normalizeCountryName_def key_of_capitalize capitalize_idem)
  qed
qed

text \<open>
  C8. The normalization is not idempotent on every string, because it does not return on
  every string: for the country name "constructor" the lookup in the alias table finds the
  inherited \<open>constructor\<close> of the table object, which is true in the condition, and the
  call of \<open>charAt\<close> on it raises a TypeError.
\<close>

theorem normalize_constructor_raises:
  "normalizeCountryName (Some ''constructor'') = Inl TypeError"
  by code_simp

end
